theory Spec2Isabelle
  imports Complex_Main "HOL-Library.Word"
begin

section \<open>A quad drawn with GLFW and OpenGL: the program of src/main.cpp\<close>

text \<open>
  The program is a straight line of OpenGL and GLFW calls around one loop. Its functions
  are embedded as state transformers on a record \<open>world\<close> that holds what the two
  libraries keep for the process (the window, the rendering context and its objects),
  the two output streams, the exit status, and a log of the API calls issued by
  \<open>main\<close> and the two set-up functions, in program order.

  What the libraries do at a call is taken from their reference pages and kept to the
  part the program can observe. The platform's answers that the program branches on or
  prints (the outcome of compiling and linking, the events delivered at each poll, the
  size of the framebuffer) are parameters.
\<close>

subsection \<open>Data passed through the API\<close>

type_synonym GLuint = "32 word"

text \<open>
  A \<open>float\<close> is modelled by the rational it denotes. The only floats of the program are
  the literals \<open>0.5f\<close>, \<open>-0.5f\<close> and \<open>0.0f\<close>, which binary32 represents exactly, and
  the program does no arithmetic on them.
\<close>

type_synonym GLfloat = rat

definition sizeof_float :: nat where
  "sizeof_float = 4"

definition sizeof_GLuint :: nat where
  "sizeof_GLuint = 4"

datatype buffer_target = GL_ARRAY_BUFFER | GL_ELEMENT_ARRAY_BUFFER

datatype buffer_usage = GL_STATIC_DRAW

datatype attrib_type = GL_FLOAT

datatype shader_type = GL_VERTEX_SHADER | GL_FRAGMENT_SHADER

datatype clear_bit = GL_COLOR_BUFFER_BIT | GL_DEPTH_BUFFER_BIT | GL_STENCIL_BUFFER_BIT

datatype draw_mode = GL_POINTS | GL_LINES | GL_TRIANGLES

datatype index_type = GL_UNSIGNED_BYTE | GL_UNSIGNED_SHORT | GL_UNSIGNED_INT

fun index_size :: "index_type \<Rightarrow> nat" where
  "index_size GL_UNSIGNED_BYTE = 1"
| "index_size GL_UNSIGNED_SHORT = 2"
| "index_size GL_UNSIGNED_INT = 4"

text \<open>An array in the program's memory, as handed to \<open>glBufferData\<close>.\<close>

datatype client_array = FloatArray "GLfloat list" | UIntArray "GLuint list"

fun sizeof_array :: "client_array \<Rightarrow> nat" where
  "sizeof_array (FloatArray xs) = length xs * sizeof_float"
| "sizeof_array (UIntArray xs) = length xs * sizeof_GLuint"

text \<open>The first \<open>n\<close> bytes of an array (whole elements).\<close>

fun take_bytes :: "nat \<Rightarrow> client_array \<Rightarrow> client_array" where
  "take_bytes n (FloatArray xs) = FloatArray (take (n div sizeof_float) xs)"
| "take_bytes n (UIntArray xs) = UIntArray (take (n div sizeof_GLuint) xs)"

fun floats_of :: "client_array \<Rightarrow> GLfloat list" where
  "floats_of (FloatArray xs) = xs"
| "floats_of (UIntArray xs) = []"

fun uints_of :: "client_array \<Rightarrow> GLuint list" where
  "uints_of (UIntArray xs) = xs"
| "uints_of (FloatArray xs) = []"

subsection \<open>Objects of the rendering context\<close>

record buffer_object =
  bo_size :: nat
  bo_data :: client_array
  bo_usage :: buffer_usage

record vertex_attrib =
  va_size :: nat
  va_type :: attrib_type
  va_normalized :: bool
  va_stride :: nat
  va_offset :: nat
  va_buffer :: GLuint

text \<open>
  A vertex array object stores the element array buffer binding and, per attribute, the
  layout and the buffer that was bound to \<open>GL_ARRAY_BUFFER\<close> when the layout was set.
\<close>

record vertex_array =
  element_array_buffer :: GLuint
  attribs :: "nat \<rightharpoonup> vertex_attrib"
  enabled :: "nat set"

record shader_object =
  sh_type :: shader_type
  sh_source :: string
  sh_compiled :: bool
  sh_log :: string
  sh_attachments :: nat
  sh_delete_flag :: bool

record program_object =
  pr_shaders :: "GLuint list"
  pr_linked :: bool
  pr_log :: string

subsection \<open>The platform\<close>

text \<open>
  The GLSL compiler and linker of the driver: each answers a status flag and an
  information log, a C string (it holds no zero character). The linker sees the type,
  source and compile status of the attached shaders. The framebuffer size of a new window is the platform's as well (it can differ
  from the requested window size).
\<close>

record platform =
  glsl_compile :: "shader_type \<Rightarrow> string \<Rightarrow> bool \<times> string"
  glsl_link :: "(shader_type \<times> string \<times> bool) list \<Rightarrow> bool \<times> string"
  framebuffer_of :: "nat \<Rightarrow> nat \<Rightarrow> int \<times> int"

text \<open>What one call of \<open>glfwPollEvents\<close> can deliver.\<close>

datatype event =
    Key int int int int
  | CloseRequested
  | FramebufferResized int int

subsection \<open>The call log\<close>

text \<open>
  One constructor per API function the program calls, with the arguments that vary and,
  for a query, the answer. The window handle is left out: there is one window.
\<close>

datatype api_call =
    InitializeGlfwGladAndReturnWindow nat nat string bool bool bool
  | GlGenVertexArrays GLuint
  | GlGenBuffers GLuint
  | GlBindVertexArray GLuint
  | GlBindBuffer buffer_target GLuint
  | GlBufferData buffer_target nat client_array buffer_usage
  | GlVertexAttribPointer nat nat attrib_type bool nat nat
  | GlEnableVertexAttribArray nat
  | GlCreateShader shader_type GLuint
  | GlShaderSource GLuint string
  | GlCompileShader GLuint
  | GlGetShaderiv_COMPILE_STATUS GLuint bool
  | GlGetShaderInfoLog GLuint nat string
  | GlCreateProgram GLuint
  | GlAttachShader GLuint GLuint
  | GlLinkProgram GLuint
  | GlGetProgramiv_LINK_STATUS GLuint bool
  | GlGetProgramInfoLog GLuint nat string
  | GlDeleteShader GLuint
  | GlfwWindowShouldClose bool
  | GlfwGetFramebufferSize int int
  | GlViewport int int int int
  | GlClear "clear_bit set"
  | GlUseProgram GLuint
  | GlDrawElements draw_mode nat index_type nat
  | GlfwSwapBuffers
  | GlfwPollEvents
  | GlfwDestroyWindow
  | GlDeleteVertexArrays GLuint
  | GlDeleteBuffers GLuint
  | GlDeleteProgram GLuint
  | GlfwTerminate
  | Exit int

subsection \<open>The state of the process\<close>

text \<open>The state of a rendering context: its objects, its bindings, the names handed out.\<close>

record gl_context =
  last_buffer :: GLuint
  last_vertex_array :: GLuint
  last_shader_or_program :: GLuint
  buffers :: "GLuint \<rightharpoonup> buffer_object"
  vertex_arrays :: "GLuint \<rightharpoonup> vertex_array"
  shaders :: "GLuint \<rightharpoonup> shader_object"
  programs :: "GLuint \<rightharpoonup> program_object"
  array_buffer_binding :: GLuint
  vertex_array_binding :: GLuint
  current_program :: GLuint
  viewport :: "int \<times> int \<times> int \<times> int"

definition new_context :: gl_context where
  "new_context =
     \<lparr>last_buffer = 0, last_vertex_array = 0, last_shader_or_program = 0,
      buffers = Map.empty, vertex_arrays = Map.empty, shaders = Map.empty,
      programs = Map.empty, array_buffer_binding = 0, vertex_array_binding = 0,
      current_program = 0, viewport = (0, 0, 0, 0)\<rparr>"

text \<open>
  \<open>context\<close> is the rendering context that is current, if one is. \<open>calls\<close> is the log;
  \<open>contextless\<close> collects the OpenGL calls that were issued while no context was
  current. \<open>exit_status\<close> is \<open>None\<close> while the process runs.
\<close>

record world =
  glfw_initialised :: bool
  window_exists :: bool
  should_close :: bool
  framebuffer_size :: "int \<times> int"
  key_callback_installed :: bool
  "context" :: "gl_context option"
  stdout :: string
  stderr :: string
  calls :: "api_call list"
  contextless :: "api_call list"
  exit_status :: "int option"

text \<open>The process before \<open>main\<close> runs: nothing initialised, nothing written.\<close>

definition process_start :: world where
  "process_start =
     \<lparr>glfw_initialised = False, window_exists = False, should_close = False,
      framebuffer_size = (0, 0), key_callback_installed = False, context = None,
      stdout = [], stderr = [], calls = [], contextless = [], exit_status = None\<rparr>"

subsection \<open>OpenGL commands\<close>

text \<open>
  A command is logged and takes effect on the current context. Issued while no context
  is current it has no effect, and is recorded in \<open>contextless\<close> as well. A query is a
  command with an answer, which the log keeps; without a context the answer is \<open>dflt\<close>.
\<close>

definition gl_command :: "api_call \<Rightarrow> (gl_context \<Rightarrow> gl_context) \<Rightarrow> world \<Rightarrow> world" where
  "gl_command c effect w =
     (case context w of
        Some g \<Rightarrow> w\<lparr>calls := calls w @ [c], context := Some (effect g)\<rparr>
      | None \<Rightarrow> w\<lparr>calls := calls w @ [c], contextless := contextless w @ [c]\<rparr>)"

definition gl_query ::
  "('a \<Rightarrow> api_call) \<Rightarrow> (gl_context \<Rightarrow> 'a \<times> gl_context) \<Rightarrow> 'a \<Rightarrow> world \<Rightarrow> 'a \<times> world" where
  "gl_query c answer dflt w =
     (case context w of
        Some g \<Rightarrow>
          (fst (answer g), w\<lparr>calls := calls w @ [c (fst (answer g))],
                              context := Some (snd (answer g))\<rparr>)
      | None \<Rightarrow>
          (dflt, w\<lparr>calls := calls w @ [c dflt], contextless := contextless w @ [c dflt]\<rparr>))"

text \<open>Object names are handed out in increasing order; zero is never a name.\<close>

definition fresh :: "GLuint \<Rightarrow> GLuint" where
  "fresh n = (if n + 1 = 0 then 1 else n + 1)"

text \<open>\<open>glGenVertexArrays(1, &name)\<close> and \<open>glGenBuffers(1, &name)\<close>: one name each.\<close>

definition glGenVertexArrays :: "world \<Rightarrow> GLuint \<times> world" where
  "glGenVertexArrays =
     gl_query GlGenVertexArrays
       (\<lambda>g. (fresh (last_vertex_array g), g\<lparr>last_vertex_array := fresh (last_vertex_array g)\<rparr>))
       0"

definition glGenBuffers :: "world \<Rightarrow> GLuint \<times> world" where
  "glGenBuffers =
     gl_query GlGenBuffers
       (\<lambda>g. (fresh (last_buffer g), g\<lparr>last_buffer := fresh (last_buffer g)\<rparr>))
       0"

definition new_vertex_array :: vertex_array where
  "new_vertex_array = \<lparr>element_array_buffer = 0, attribs = Map.empty, enabled = {}\<rparr>"

definition new_buffer :: buffer_object where
  "new_buffer = \<lparr>bo_size = 0, bo_data = FloatArray [], bo_usage = GL_STATIC_DRAW\<rparr>"

definition glBindVertexArray :: "GLuint \<Rightarrow> world \<Rightarrow> world" where
  "glBindVertexArray a =
     gl_command (GlBindVertexArray a)
       (\<lambda>g. g\<lparr>vertex_array_binding := a,
               vertex_arrays :=
                 (if a = 0 \<or> vertex_arrays g a \<noteq> None then vertex_arrays g
                  else (vertex_arrays g)(a \<mapsto> new_vertex_array))\<rparr>)"

text \<open>
  The \<open>GL_ELEMENT_ARRAY_BUFFER\<close> binding is a field of the bound vertex array object;
  the \<open>GL_ARRAY_BUFFER\<close> binding is context state.
\<close>

definition bound_buffer :: "buffer_target \<Rightarrow> gl_context \<Rightarrow> GLuint" where
  "bound_buffer target g =
     (case target of
        GL_ARRAY_BUFFER \<Rightarrow> array_buffer_binding g
      | GL_ELEMENT_ARRAY_BUFFER \<Rightarrow>
          (case vertex_arrays g (vertex_array_binding g) of
             None \<Rightarrow> 0
           | Some va \<Rightarrow> element_array_buffer va))"

definition bind_buffer :: "buffer_target \<Rightarrow> GLuint \<Rightarrow> gl_context \<Rightarrow> gl_context" where
  "bind_buffer target b g =
     (case target of
        GL_ARRAY_BUFFER \<Rightarrow> g\<lparr>array_buffer_binding := b\<rparr>
      | GL_ELEMENT_ARRAY_BUFFER \<Rightarrow>
          (case vertex_arrays g (vertex_array_binding g) of
             None \<Rightarrow> g
           | Some va \<Rightarrow>
               g\<lparr>vertex_arrays :=
                    (vertex_arrays g)(vertex_array_binding g \<mapsto>
                       va\<lparr>element_array_buffer := b\<rparr>)\<rparr>))"

definition glBindBuffer :: "buffer_target \<Rightarrow> GLuint \<Rightarrow> world \<Rightarrow> world" where
  "glBindBuffer target b =
     gl_command (GlBindBuffer target b)
       (\<lambda>g. bind_buffer target b
              (g\<lparr>buffers :=
                   (if b = 0 \<or> buffers g b \<noteq> None then buffers g
                    else (buffers g)(b \<mapsto> new_buffer))\<rparr>))"

definition glBufferData ::
  "buffer_target \<Rightarrow> nat \<Rightarrow> client_array \<Rightarrow> buffer_usage \<Rightarrow> world \<Rightarrow> world" where
  "glBufferData target nbytes data usage =
     gl_command (GlBufferData target nbytes data usage)
       (\<lambda>g. if bound_buffer target g = 0 then g
            else g\<lparr>buffers := (buffers g)(bound_buffer target g \<mapsto>
                     \<lparr>bo_size = nbytes, bo_data = take_bytes nbytes data,
                      bo_usage = usage\<rparr>)\<rparr>)"

definition glVertexAttribPointer ::
  "nat \<Rightarrow> nat \<Rightarrow> attrib_type \<Rightarrow> bool \<Rightarrow> nat \<Rightarrow> nat \<Rightarrow> world \<Rightarrow> world" where
  "glVertexAttribPointer index ncomp type normalized stride pointer =
     gl_command (GlVertexAttribPointer index ncomp type normalized stride pointer)
       (\<lambda>g. case vertex_arrays g (vertex_array_binding g) of
              None \<Rightarrow> g
            | Some va \<Rightarrow>
                g\<lparr>vertex_arrays :=
                     (vertex_arrays g)(vertex_array_binding g \<mapsto>
                        va\<lparr>attribs := (attribs va)(index \<mapsto>
                             \<lparr>va_size = ncomp, va_type = type,
                              va_normalized = normalized, va_stride = stride,
                              va_offset = pointer,
                              va_buffer = array_buffer_binding g\<rparr>)\<rparr>)\<rparr>)"

definition glEnableVertexAttribArray :: "nat \<Rightarrow> world \<Rightarrow> world" where
  "glEnableVertexAttribArray index =
     gl_command (GlEnableVertexAttribArray index)
       (\<lambda>g. case vertex_arrays g (vertex_array_binding g) of
              None \<Rightarrow> g
            | Some va \<Rightarrow>
                g\<lparr>vertex_arrays :=
                     (vertex_arrays g)(vertex_array_binding g \<mapsto>
                        va\<lparr>enabled := insert index (enabled va)\<rparr>)\<rparr>)"

subsection \<open>Reading a buffer the way a draw call does\<close>

text \<open>
  Vertex \<open>i\<close> of an attribute: \<open>va_size\<close> floats at byte offset
  \<open>va_offset + i * stride\<close> of the attribute's buffer, where a stride of zero means
  tightly packed.
\<close>

definition effective_stride :: "vertex_attrib \<Rightarrow> nat" where
  "effective_stride a =
     (if va_stride a = 0 then va_size a * sizeof_float else va_stride a)"

definition fetch_attrib :: "vertex_attrib \<Rightarrow> buffer_object \<Rightarrow> nat \<Rightarrow> GLfloat list" where
  "fetch_attrib a b i =
     take (va_size a)
       (drop ((va_offset a + i * effective_stride a) div sizeof_float)
          (floats_of (bo_data b)))"

definition decode_attrib :: "vertex_attrib \<Rightarrow> buffer_object \<Rightarrow> GLfloat list list" where
  "decode_attrib a b =
     map (fetch_attrib a b) [0 ..< (bo_size b - va_offset a) div effective_stride a]"

text \<open>The positions a draw call reads for attribute \<open>index\<close> of vertex array \<open>vao\<close>.\<close>

definition attrib_values :: "gl_context \<Rightarrow> GLuint \<Rightarrow> nat \<Rightarrow> GLfloat list list option" where
  "attrib_values g vao index =
     (case vertex_arrays g vao of
        None \<Rightarrow> None
      | Some va \<Rightarrow>
          (case attribs va index of
             None \<Rightarrow> None
           | Some a \<Rightarrow>
               (case buffers g (va_buffer a) of
                  None \<Rightarrow> None
                | Some b \<Rightarrow> Some (decode_attrib a b))))"

text \<open>
  The indices an indexed draw of \<open>count\<close> 4-byte indices from byte \<open>offset\<close> reads from
  the element array buffer of vertex array \<open>vao\<close>, and the triangles they form.
\<close>

definition element_indices :: "gl_context \<Rightarrow> GLuint \<Rightarrow> nat \<Rightarrow> nat \<Rightarrow> GLuint list option" where
  "element_indices g vao count offset =
     (case vertex_arrays g vao of
        None \<Rightarrow> None
      | Some va \<Rightarrow>
          (case buffers g (element_array_buffer va) of
             None \<Rightarrow> None
           | Some b \<Rightarrow>
               Some (take count (drop (offset div sizeof_GLuint) (uints_of (bo_data b))))))"

fun triangles :: "'a list \<Rightarrow> ('a \<times> 'a \<times> 'a) list" where
  "triangles (a # b # c # rest) = (a, b, c) # triangles rest"
| "triangles rest = []"

subsection \<open>Geometry set-up\<close>

record OpenGLDrawingData =
  vbo_name :: GLuint
  ibo_name :: GLuint
  vao_name :: GLuint

text \<open>
  The two arrays are locals of \<open>prepare_drawing_data_and_opengl_drawing_data\<close>:
  \<open>float vertices[]\<close> (top right, bottom right, bottom left, top left) and
  \<open>GLuint indices[]\<close> (first triangle, second triangle).
\<close>

definition vertices :: "GLfloat list" where
  "vertices =
     [0.5, 0.5, 0.0,
      0.5, -0.5, 0.0,
      -0.5, -0.5, 0.0,
      -0.5, 0.5, 0.0]"

definition indices :: "GLuint list" where
  "indices =
     [0, 1, 3,
      1, 2, 3]"

definition prepare_drawing_data_and_opengl_drawing_data ::
  "world \<Rightarrow> OpenGLDrawingData \<times> world" where
  "prepare_drawing_data_and_opengl_drawing_data w0 =
     (let (vao, w1) = glGenVertexArrays w0;
          (vbo, w2) = glGenBuffers w1;
          (ibo, w3) = glGenBuffers w2;
          w4 = glBindVertexArray vao w3;
          w5 = glBindBuffer GL_ARRAY_BUFFER vbo w4;
          w6 = glBufferData GL_ARRAY_BUFFER (sizeof_array (FloatArray vertices))
                 (FloatArray vertices) GL_STATIC_DRAW w5;
          w7 = glBindBuffer GL_ELEMENT_ARRAY_BUFFER ibo w6;
          w8 = glBufferData GL_ELEMENT_ARRAY_BUFFER (sizeof_array (UIntArray indices))
                 (UIntArray indices) GL_STATIC_DRAW w7;
          w9 = glVertexAttribPointer 0 3 GL_FLOAT False (3 * sizeof_float) 0 w8;
          w10 = glEnableVertexAttribArray 0 w9;
          w11 = glBindBuffer GL_ARRAY_BUFFER 0 w10;
          w12 = glBindVertexArray 0 w11
      in (\<lparr>vbo_name = vbo, ibo_name = ibo, vao_name = vao\<rparr>, w12))"

subsection \<open>Shader and program objects\<close>

definition new_shader :: "shader_type \<Rightarrow> shader_object" where
  "new_shader type =
     \<lparr>sh_type = type, sh_source = [], sh_compiled = False, sh_log = [],
      sh_attachments = 0, sh_delete_flag = False\<rparr>"

definition new_program :: program_object where
  "new_program = \<lparr>pr_shaders = [], pr_linked = False, pr_log = []\<rparr>"

definition glCreateShader :: "shader_type \<Rightarrow> world \<Rightarrow> GLuint \<times> world" where
  "glCreateShader type =
     gl_query (GlCreateShader type)
       (\<lambda>g. (fresh (last_shader_or_program g),
              g\<lparr>last_shader_or_program := fresh (last_shader_or_program g),
                shaders := (shaders g)(fresh (last_shader_or_program g) \<mapsto> new_shader type)\<rparr>))
       0"

text \<open>
  \<open>glShaderSource(shader, 1, &text, NULL)\<close>: one string, read up to its terminating
  zero.
\<close>

definition glShaderSource :: "GLuint \<Rightarrow> string \<Rightarrow> world \<Rightarrow> world" where
  "glShaderSource shader text =
     gl_command (GlShaderSource shader text)
       (\<lambda>g. case shaders g shader of
              None \<Rightarrow> g
            | Some s \<Rightarrow> g\<lparr>shaders := (shaders g)(shader \<mapsto> s\<lparr>sh_source := text\<rparr>)\<rparr>)"

definition glCompileShader :: "platform \<Rightarrow> GLuint \<Rightarrow> world \<Rightarrow> world" where
  "glCompileShader pf shader =
     gl_command (GlCompileShader shader)
       (\<lambda>g. case shaders g shader of
              None \<Rightarrow> g
            | Some s \<Rightarrow>
                g\<lparr>shaders :=
                     (shaders g)(shader \<mapsto>
                        s\<lparr>sh_compiled := fst (glsl_compile pf (sh_type s) (sh_source s)),
                          sh_log := snd (glsl_compile pf (sh_type s) (sh_source s))\<rparr>)\<rparr>)"

text \<open>\<open>glGetShaderiv(shader, GL_COMPILE_STATUS, &success)\<close>.\<close>

definition glGetShaderiv_COMPILE_STATUS :: "GLuint \<Rightarrow> world \<Rightarrow> bool \<times> world" where
  "glGetShaderiv_COMPILE_STATUS shader =
     gl_query (GlGetShaderiv_COMPILE_STATUS shader)
       (\<lambda>g. (case shaders g shader of None \<Rightarrow> False | Some s \<Rightarrow> sh_compiled s, g))
       False"

text \<open>
  \<open>glGetShaderInfoLog(shader, bufSize, NULL, infoLog)\<close> writes at most \<open>bufSize - 1\<close>
  characters of the log and a terminating zero; the answer is the string then held by
  the buffer.
\<close>

definition glGetShaderInfoLog :: "GLuint \<Rightarrow> nat \<Rightarrow> world \<Rightarrow> string \<times> world" where
  "glGetShaderInfoLog shader bufSize =
     gl_query (GlGetShaderInfoLog shader bufSize)
       (\<lambda>g. (case shaders g shader of
                None \<Rightarrow> []
              | Some s \<Rightarrow> take (bufSize - 1) (sh_log s), g))
       []"

definition glCreateProgram :: "world \<Rightarrow> GLuint \<times> world" where
  "glCreateProgram =
     gl_query GlCreateProgram
       (\<lambda>g. (fresh (last_shader_or_program g),
              g\<lparr>last_shader_or_program := fresh (last_shader_or_program g),
                programs := (programs g)(fresh (last_shader_or_program g) \<mapsto> new_program)\<rparr>))
       0"

definition glAttachShader :: "GLuint \<Rightarrow> GLuint \<Rightarrow> world \<Rightarrow> world" where
  "glAttachShader program shader =
     gl_command (GlAttachShader program shader)
       (\<lambda>g. case programs g program of
              None \<Rightarrow> g
            | Some pr \<Rightarrow>
                (case shaders g shader of
                   None \<Rightarrow> g
                 | Some s \<Rightarrow>
                     g\<lparr>programs :=
                          (programs g)(program \<mapsto>
                             pr\<lparr>pr_shaders := pr_shaders pr @ [shader]\<rparr>),
                        shaders :=
                          (shaders g)(shader \<mapsto>
                             s\<lparr>sh_attachments := Suc (sh_attachments s)\<rparr>)\<rparr>))"

text \<open>What the linker is given: the attached shaders that exist, in attachment order.\<close>

definition attached_shaders ::
  "gl_context \<Rightarrow> GLuint list \<Rightarrow> (shader_type \<times> string \<times> bool) list" where
  "attached_shaders g names =
     concat (map (\<lambda>n. case shaders g n of
                         None \<Rightarrow> []
                       | Some s \<Rightarrow> [(sh_type s, sh_source s, sh_compiled s)]) names)"

definition glLinkProgram :: "platform \<Rightarrow> GLuint \<Rightarrow> world \<Rightarrow> world" where
  "glLinkProgram pf program =
     gl_command (GlLinkProgram program)
       (\<lambda>g. case programs g program of
              None \<Rightarrow> g
            | Some pr \<Rightarrow>
                g\<lparr>programs :=
                     (programs g)(program \<mapsto>
                        pr\<lparr>pr_linked := fst (glsl_link pf (attached_shaders g (pr_shaders pr))),
                           pr_log := snd (glsl_link pf (attached_shaders g (pr_shaders pr)))\<rparr>)\<rparr>)"

text \<open>\<open>glGetProgramiv(program, GL_LINK_STATUS, &success)\<close>.\<close>

definition glGetProgramiv_LINK_STATUS :: "GLuint \<Rightarrow> world \<Rightarrow> bool \<times> world" where
  "glGetProgramiv_LINK_STATUS program =
     gl_query (GlGetProgramiv_LINK_STATUS program)
       (\<lambda>g. (case programs g program of None \<Rightarrow> False | Some pr \<Rightarrow> pr_linked pr, g))
       False"

definition glGetProgramInfoLog :: "GLuint \<Rightarrow> nat \<Rightarrow> world \<Rightarrow> string \<times> world" where
  "glGetProgramInfoLog program bufSize =
     gl_query (GlGetProgramInfoLog program bufSize)
       (\<lambda>g. (case programs g program of
                None \<Rightarrow> []
              | Some pr \<Rightarrow> take (bufSize - 1) (pr_log pr), g))
       []"

text \<open>A shader that is attached to a program is only flagged for deletion.\<close>

definition glDeleteShader :: "GLuint \<Rightarrow> world \<Rightarrow> world" where
  "glDeleteShader shader =
     gl_command (GlDeleteShader shader)
       (\<lambda>g. case shaders g shader of
              None \<Rightarrow> g
            | Some s \<Rightarrow>
                if sh_attachments s = 0 then g\<lparr>shaders := (shaders g)(shader := None)\<rparr>
                else g\<lparr>shaders := (shaders g)(shader \<mapsto> s\<lparr>sh_delete_flag := True\<rparr>)\<rparr>)"

subsection \<open>Drawing\<close>

definition glViewport :: "int \<Rightarrow> int \<Rightarrow> int \<Rightarrow> int \<Rightarrow> world \<Rightarrow> world" where
  "glViewport x y width height =
     gl_command (GlViewport x y width height)
       (\<lambda>g. if width < 0 \<or> height < 0 then g else g\<lparr>viewport := (x, y, width, height)\<rparr>)"

text \<open>
  The contents of the framebuffer are not modelled: clearing, drawing and presenting
  are logged only.
\<close>

definition glClear :: "clear_bit set \<Rightarrow> world \<Rightarrow> world" where
  "glClear bits = gl_command (GlClear bits) id"

definition glUseProgram :: "GLuint \<Rightarrow> world \<Rightarrow> world" where
  "glUseProgram program =
     gl_command (GlUseProgram program)
       (\<lambda>g. if program = 0 then g\<lparr>current_program := 0\<rparr>
            else (case programs g program of
                    None \<Rightarrow> g
                  | Some pr \<Rightarrow> if pr_linked pr then g\<lparr>current_program := program\<rparr> else g))"

definition glDrawElements :: "draw_mode \<Rightarrow> nat \<Rightarrow> index_type \<Rightarrow> nat \<Rightarrow> world \<Rightarrow> world" where
  "glDrawElements mode count type offset =
     gl_command (GlDrawElements mode count type offset) id"

subsection \<open>Deleting objects\<close>

text \<open>\<open>glDeleteVertexArrays(1, &name)\<close> and \<open>glDeleteBuffers(1, &name)\<close>: one name each.\<close>

definition glDeleteVertexArrays :: "GLuint \<Rightarrow> world \<Rightarrow> world" where
  "glDeleteVertexArrays a =
     gl_command (GlDeleteVertexArrays a)
       (\<lambda>g. g\<lparr>vertex_arrays := (vertex_arrays g)(a := None),
               vertex_array_binding :=
                 (if vertex_array_binding g = a then 0 else vertex_array_binding g)\<rparr>)"

definition glDeleteBuffers :: "GLuint \<Rightarrow> world \<Rightarrow> world" where
  "glDeleteBuffers b =
     gl_command (GlDeleteBuffers b)
       (\<lambda>g. g\<lparr>buffers := (buffers g)(b := None),
               array_buffer_binding :=
                 (if array_buffer_binding g = b then 0 else array_buffer_binding g)\<rparr>)"

definition release_shader :: "GLuint \<Rightarrow> gl_context \<Rightarrow> gl_context" where
  "release_shader n g =
     (case shaders g n of
        None \<Rightarrow> g
      | Some s \<Rightarrow>
          if sh_delete_flag s \<and> sh_attachments s \<le> 1
          then g\<lparr>shaders := (shaders g)(n := None)\<rparr>
          else g\<lparr>shaders := (shaders g)(n \<mapsto> s\<lparr>sh_attachments := sh_attachments s - 1\<rparr>)\<rparr>)"

definition glDeleteProgram :: "GLuint \<Rightarrow> world \<Rightarrow> world" where
  "glDeleteProgram program =
     gl_command (GlDeleteProgram program)
       (\<lambda>g. case programs g program of
              None \<Rightarrow> g
            | Some pr \<Rightarrow>
                fold release_shader (pr_shaders pr)
                  (g\<lparr>programs := (programs g)(program := None),
                     current_program :=
                       (if current_program g = program then 0 else current_program g)\<rparr>))"

subsection \<open>The window library\<close>

definition log_call :: "api_call \<Rightarrow> world \<Rightarrow> world" where
  "log_call c w = w\<lparr>calls := calls w @ [c]\<rparr>"

definition GLFW_KEY_ESCAPE :: int where
  "GLFW_KEY_ESCAPE = 256"

definition GLFW_RELEASE :: int where
  "GLFW_RELEASE = 0"

definition GLFW_PRESS :: int where
  "GLFW_PRESS = 1"

definition GLFW_REPEAT :: int where
  "GLFW_REPEAT = 2"

definition GLFW_TRUE :: int where
  "GLFW_TRUE = 1"

definition glfwWindowShouldClose :: "world \<Rightarrow> bool \<times> world" where
  "glfwWindowShouldClose w =
     (should_close w, log_call (GlfwWindowShouldClose (should_close w)) w)"

text \<open>Called from a callback, inside \<open>glfwPollEvents\<close>: not logged.\<close>

definition glfwSetWindowShouldClose :: "int \<Rightarrow> world \<Rightarrow> world" where
  "glfwSetWindowShouldClose v w = w\<lparr>should_close := (v \<noteq> 0)\<rparr>"

definition glfwGetFramebufferSize :: "world \<Rightarrow> (int \<times> int) \<times> world" where
  "glfwGetFramebufferSize w =
     (framebuffer_size w,
      log_call (GlfwGetFramebufferSize (fst (framebuffer_size w)) (snd (framebuffer_size w))) w)"

definition glfwSwapBuffers :: "world \<Rightarrow> world" where
  "glfwSwapBuffers = log_call GlfwSwapBuffers"

text \<open>
  Destroying the window destroys its context with the objects in it; a context that was
  current is detached first, so that no context is current afterwards.
\<close>

definition glfwDestroyWindow :: "world \<Rightarrow> world" where
  "glfwDestroyWindow w =
     (log_call GlfwDestroyWindow w)
       \<lparr>window_exists := False, key_callback_installed := False, context := None\<rparr>"

definition glfwTerminate :: "world \<Rightarrow> world" where
  "glfwTerminate w =
     (if window_exists w then glfwDestroyWindow (log_call GlfwTerminate w)
      else log_call GlfwTerminate w)
       \<lparr>glfw_initialised := False\<rparr>"

definition EXIT_SUCCESS :: int where
  "EXIT_SUCCESS = 0"

definition exit :: "int \<Rightarrow> world \<Rightarrow> world" where
  "exit status w = (log_call (Exit status) w)\<lparr>exit_status := Some status\<rparr>"

definition cout :: "string \<Rightarrow> world \<Rightarrow> world" where
  "cout s w = w\<lparr>stdout := stdout w @ s\<rparr>"

definition endl :: string where
  "endl = [CHR 0x0A]"

subsection \<open>Callbacks\<close>

definition error_callback :: "int \<Rightarrow> string \<Rightarrow> world \<Rightarrow> world" where
  "error_callback error description w =
     w\<lparr>stderr := stderr w @ ''Error: '' @ description @ [CHR 0x0A]\<rparr>"

definition key_callback :: "int \<Rightarrow> int \<Rightarrow> int \<Rightarrow> int \<Rightarrow> world \<Rightarrow> world" where
  "key_callback key scancode action mods window =
     (if key = GLFW_KEY_ESCAPE \<and> action = GLFW_PRESS
      then glfwSetWindowShouldClose GLFW_TRUE window
      else window)"

text \<open>
  Event processing: a key event goes to the keyboard callback if one is installed; a
  close request of the window system sets the close flag; a resize changes the
  framebuffer size.
\<close>

fun deliver :: "event \<Rightarrow> world \<Rightarrow> world" where
  "deliver (Key key scancode action mods) w =
     (if key_callback_installed w then key_callback key scancode action mods w else w)"
| "deliver CloseRequested w = w\<lparr>should_close := True\<rparr>"
| "deliver (FramebufferResized width height) w = w\<lparr>framebuffer_size := (width, height)\<rparr>"

definition glfwPollEvents :: "event list \<Rightarrow> world \<Rightarrow> world" where
  "glfwPollEvents batch w = fold deliver batch (log_call GlfwPollEvents w)"

text \<open>
  Modelled from the spec: \<open>initialize_glfw_glad_and_return_window\<close> is declared in
  window/window.hpp, which is not among the sources. By the specification it creates a
  window and an OpenGL-capable rendering context, installs an error callback and a
  keyboard callback whose behaviour is that of \<open>key_callback\<close>, and returns a handle
  usable by the rest of the program. Its last argument, a pointer to a
  \<open>LiveInputState\<close>, is a type of the same header and is left out.
\<close>

definition initialize_glfw_glad_and_return_window ::
  "platform \<Rightarrow> nat \<Rightarrow> nat \<Rightarrow> string \<Rightarrow> bool \<Rightarrow> bool \<Rightarrow> bool \<Rightarrow> world \<Rightarrow> world" where
  "initialize_glfw_glad_and_return_window pf width height title fullscreen resizable debug w =
     (log_call (InitializeGlfwGladAndReturnWindow width height title fullscreen resizable debug) w)
       \<lparr>glfw_initialised := True, window_exists := True, should_close := False,
        framebuffer_size := framebuffer_of pf width height,
        key_callback_installed := True, context := Some new_context\<rparr>"

subsection \<open>Building the shader program\<close>

definition vertex_shader_text :: string where
  "vertex_shader_text =
     ''#version 330 core\<newline>'' @
     ''layout (location = 0) in vec3 aPos;\<newline>'' @
     ''void main()\<newline>'' @
     ''{\<newline>'' @
     ''   gl_Position = vec4(aPos.x, aPos.y, aPos.z, 1.0);\<newline>'' @
     ''}''"

definition fragment_shader_text :: string where
  "fragment_shader_text =
     ''#version 330 core\<newline>'' @
     ''out vec4 FragColor;\<newline>'' @
     ''void main()\<newline>'' @
     ''{\<newline>'' @
     ''   FragColor = vec4(1.0f, 0.5f, 0.2f, 1.0f);\<newline>'' @
     ''}\<newline>''"

definition create_shader_program :: "platform \<Rightarrow> world \<Rightarrow> GLuint \<times> world" where
  "create_shader_program pf w0 =
     (let (vertex_shader, w1) = glCreateShader GL_VERTEX_SHADER w0;
          w2 = glShaderSource vertex_shader vertex_shader_text w1;
          w3 = glCompileShader pf vertex_shader w2;
          (success, w4) = glGetShaderiv_COMPILE_STATUS vertex_shader w3;
          w5 = (if \<not> success then
                  (let (infoLog, w) = glGetShaderInfoLog vertex_shader 512 w4
                   in cout (''ERROR::SHADER::VERTEX::COMPILATION_FAILED\<newline>'' @ infoLog @ endl) w)
                else w4);
          (fragment_shader, w6) = glCreateShader GL_FRAGMENT_SHADER w5;
          w7 = glShaderSource fragment_shader fragment_shader_text w6;
          w8 = glCompileShader pf fragment_shader w7;
          (success, w9) = glGetShaderiv_COMPILE_STATUS fragment_shader w8;
          w10 = (if \<not> success then
                   (let (infoLog, w) = glGetShaderInfoLog fragment_shader 512 w9
                    in cout (''ERROR::SHADER::FRAGMENT::COMPILATION_FAILED\<newline>'' @ infoLog @ endl) w)
                 else w9);
          (shader_program, w11) = glCreateProgram w10;
          w12 = glAttachShader shader_program vertex_shader w11;
          w13 = glAttachShader shader_program fragment_shader w12;
          w14 = glLinkProgram pf shader_program w13;
          (success, w15) = glGetProgramiv_LINK_STATUS shader_program w14;
          w16 = (if \<not> success then
                   (let (infoLog, w) = glGetProgramInfoLog shader_program 512 w15
                    in cout (''ERROR::SHADER::PROGRAM::LINKING_FAILED\<newline>'' @ infoLog @ endl) w)
                 else w15);
          w17 = glDeleteShader vertex_shader w16;
          w18 = glDeleteShader fragment_shader w17
      in (shader_program, w18))"

subsection \<open>The render loop and \<open>main\<close>\<close>

text \<open>The body of the \<open>while\<close> loop; \<open>batch\<close> is what this iteration's poll delivers.\<close>

definition loop_body :: "GLuint \<Rightarrow> GLuint \<Rightarrow> event list \<Rightarrow> world \<Rightarrow> world" where
  "loop_body shader_program vao batch w0 =
     (let ((width, height), w1) = glfwGetFramebufferSize w0;
          w2 = glViewport 0 0 width height w1;
          w3 = glClear {GL_COLOR_BUFFER_BIT} w2;
          w4 = glUseProgram shader_program w3;
          w5 = glBindVertexArray vao w4;
          w6 = glDrawElements GL_TRIANGLES 6 GL_UNSIGNED_INT 0 w5;
          w7 = glfwSwapBuffers w6
      in glfwPollEvents batch w7)"

text \<open>
  \<open>while (!glfwWindowShouldClose(window)) { ... }\<close>, run against the list of event
  batches that the successive polls deliver. The loop has no bound of its own: \<open>None\<close>
  says that it was still running when the list was used up.
\<close>

fun render_loop :: "GLuint \<Rightarrow> GLuint \<Rightarrow> event list list \<Rightarrow> world \<Rightarrow> world option" where
  "render_loop shader_program vao [] w =
     (let (closing, w1) = glfwWindowShouldClose w
      in if closing then Some w1 else None)"
| "render_loop shader_program vao (batch # rest) w =
     (let (closing, w1) = glfwWindowShouldClose w
      in if closing then Some w1
         else render_loop shader_program vao rest (loop_body shader_program vao batch w1))"

definition SCREEN_WIDTH :: nat where
  "SCREEN_WIDTH = 640"

definition SCREEN_HEIGHT :: nat where
  "SCREEN_HEIGHT = 480"

definition main :: "platform \<Rightarrow> event list list \<Rightarrow> world \<Rightarrow> world option" where
  "main pf script w0 =
     (let window = initialize_glfw_glad_and_return_window pf SCREEN_WIDTH SCREEN_HEIGHT
                     ''glfw window'' False False False w0;
          (d, w1) = prepare_drawing_data_and_opengl_drawing_data window;
          (shader_program, w2) = create_shader_program pf w1
      in (case render_loop shader_program (vao_name d) script w2 of
            None \<Rightarrow> None
          | Some w3 \<Rightarrow>
              (let w4 = glfwDestroyWindow w3;
                   w5 = glDeleteVertexArrays (vao_name d) w4;
                   w6 = glDeleteBuffers (vbo_name d) w5;
                   w7 = glDeleteBuffers (ibo_name d) w6;
                   w8 = glDeleteProgram shader_program w7;
                   w9 = glfwTerminate w8
               in Some (exit EXIT_SUCCESS w9))))"

subsection \<open>Concrete runs\<close>

text \<open>
  Two platforms to run the program on: one on which the two shaders compile and link,
  and one whose compiler rejects every vertex shader with a 600-character log, longer
  than the program's buffer. Both give a new window a framebuffer of the requested size.
\<close>

definition conformant_platform :: platform where
  "conformant_platform =
     \<lparr>glsl_compile = (\<lambda>type text. (True, [])),
      glsl_link = (\<lambda>attached. (list_all (\<lambda>(type, text, ok). ok) attached, [])),
      framebuffer_of = (\<lambda>width height. (int width, int height))\<rparr>"

definition rejecting_platform :: platform where
  "rejecting_platform =
     \<lparr>glsl_compile =
        (\<lambda>type text.
           if type = GL_VERTEX_SHADER then (False, replicate 600 (CHR ''x'')) else (True, [])),
      glsl_link =
        (\<lambda>attached.
           if list_all (\<lambda>(type, text, ok). ok) attached then (True, [])
           else (False, ''error: linking with uncompiled shader'')),
      framebuffer_of = (\<lambda>width height. (int width, int height))\<rparr>"

text \<open>The process at the point where \<open>main\<close> calls the two set-up functions.\<close>

definition main_window :: "platform \<Rightarrow> world" where
  "main_window pf =
     initialize_glfw_glad_and_return_window pf SCREEN_WIDTH SCREEN_HEIGHT ''glfw window''
       False False False process_start"

text \<open>
  What the driver answers when the program compiles its two shaders and links them.
\<close>

abbreviation vertex_result :: "platform \<Rightarrow> bool \<times> string" where
  "vertex_result pf \<equiv> glsl_compile pf GL_VERTEX_SHADER vertex_shader_text"

abbreviation fragment_result :: "platform \<Rightarrow> bool \<times> string" where
  "fragment_result pf \<equiv> glsl_compile pf GL_FRAGMENT_SHADER fragment_shader_text"

abbreviation link_result :: "platform \<Rightarrow> bool \<times> string" where
  "link_result pf \<equiv>
     glsl_link pf
       [(GL_VERTEX_SHADER, vertex_shader_text, fst (vertex_result pf)),
        (GL_FRAGMENT_SHADER, fragment_shader_text, fst (fragment_result pf))]"

subsection \<open>What every OpenGL call leaves alone\<close>

text \<open>
  \<open>gl_step w c w'\<close>: from \<open>w\<close> to \<open>w'\<close> the call \<open>c\<close> was logged, and nothing changed
  but the current context, if there is one.
\<close>

definition gl_step :: "world \<Rightarrow> api_call \<Rightarrow> world \<Rightarrow> bool" where
  "gl_step w c w' =
     (calls w' = calls w @ [c] \<and>
      (context w' = None) = (context w = None) \<and>
      contextless w' = (if context w = None then contextless w @ [c] else contextless w) \<and>
      stdout w' = stdout w \<and> stderr w' = stderr w \<and> exit_status w' = exit_status w \<and>
      should_close w' = should_close w \<and> framebuffer_size w' = framebuffer_size w \<and>
      key_callback_installed w' = key_callback_installed w \<and>
      window_exists w' = window_exists w \<and> glfw_initialised w' = glfw_initialised w)"

section \<open>Properties\<close>

subsection \<open>Commands and queries leave the rest of the process alone\<close>

lemma gl_command_simps:
  "calls (gl_command c e w) = calls w @ [c]"
  "context (gl_command c e w) = map_option e (context w)"
  "contextless (gl_command c e w) = (if context w = None then contextless w @ [c] else contextless w)"
  "stdout (gl_command c e w) = stdout w"
  "stderr (gl_command c e w) = stderr w"
  "exit_status (gl_command c e w) = exit_status w"
  "should_close (gl_command c e w) = should_close w"
  "framebuffer_size (gl_command c e w) = framebuffer_size w"
  "key_callback_installed (gl_command c e w) = key_callback_installed w"
  "window_exists (gl_command c e w) = window_exists w"
  "glfw_initialised (gl_command c e w) = glfw_initialised w"
  by (simp_all add: gl_command_def split: option.split)

lemma gl_query_simps:
  "fst (gl_query c a d w) = (case context w of None \<Rightarrow> d | Some g \<Rightarrow> fst (a g))"
  "calls (snd (gl_query c a d w)) = calls w @ [c (fst (gl_query c a d w))]"
  "context (snd (gl_query c a d w)) = map_option (\<lambda>g. snd (a g)) (context w)"
  "contextless (snd (gl_query c a d w)) = (if context w = None then contextless w @ [c d] else contextless w)"
  "stdout (snd (gl_query c a d w)) = stdout w"
  "stderr (snd (gl_query c a d w)) = stderr w"
  "exit_status (snd (gl_query c a d w)) = exit_status w"
  "should_close (snd (gl_query c a d w)) = should_close w"
  "framebuffer_size (snd (gl_query c a d w)) = framebuffer_size w"
  "key_callback_installed (snd (gl_query c a d w)) = key_callback_installed w"
  "window_exists (snd (gl_query c a d w)) = window_exists w"
  "glfw_initialised (snd (gl_query c a d w)) = glfw_initialised w"
  by (simp_all add: gl_query_def split: option.split)

lemma gl_command_step: "gl_step w c (gl_command c e w)"
  by (simp add: gl_step_def gl_command_simps)

lemma gl_query_step: "gl_step w (c (fst (gl_query c a d w))) (snd (gl_query c a d w))"
  by (simp add: gl_step_def gl_query_simps split: option.split)

lemma command_steps:
  "gl_step w (GlGenVertexArrays (fst (glGenVertexArrays w))) (snd (glGenVertexArrays w))"
  "gl_step w (GlGenBuffers (fst (glGenBuffers w))) (snd (glGenBuffers w))"
  "gl_step w (GlBindVertexArray a) (glBindVertexArray a w)"
  "gl_step w (GlBindBuffer target b) (glBindBuffer target b w)"
  "gl_step w (GlBufferData target n data usage) (glBufferData target n data usage w)"
  "gl_step w (GlVertexAttribPointer i k ty nm st off)
     (glVertexAttribPointer i k ty nm st off w)"
  "gl_step w (GlEnableVertexAttribArray i) (glEnableVertexAttribArray i w)"
  "gl_step w (GlCreateShader sty (fst (glCreateShader sty w))) (snd (glCreateShader sty w))"
  "gl_step w (GlShaderSource sh text) (glShaderSource sh text w)"
  "gl_step w (GlCompileShader sh) (glCompileShader pf sh w)"
  "gl_step w (GlGetShaderiv_COMPILE_STATUS sh (fst (glGetShaderiv_COMPILE_STATUS sh w)))
     (snd (glGetShaderiv_COMPILE_STATUS sh w))"
  "gl_step w (GlGetShaderInfoLog sh n (fst (glGetShaderInfoLog sh n w)))
     (snd (glGetShaderInfoLog sh n w))"
  "gl_step w (GlCreateProgram (fst (glCreateProgram w))) (snd (glCreateProgram w))"
  "gl_step w (GlAttachShader pr sh) (glAttachShader pr sh w)"
  "gl_step w (GlLinkProgram pr) (glLinkProgram pf pr w)"
  "gl_step w (GlGetProgramiv_LINK_STATUS pr (fst (glGetProgramiv_LINK_STATUS pr w)))
     (snd (glGetProgramiv_LINK_STATUS pr w))"
  "gl_step w (GlGetProgramInfoLog pr n (fst (glGetProgramInfoLog pr n w)))
     (snd (glGetProgramInfoLog pr n w))"
  "gl_step w (GlDeleteShader sh) (glDeleteShader sh w)"
  "gl_step w (GlViewport x y width height) (glViewport x y width height w)"
  "gl_step w (GlClear bits) (glClear bits w)"
  "gl_step w (GlUseProgram pr) (glUseProgram pr w)"
  "gl_step w (GlDrawElements mode cnt ity off) (glDrawElements mode cnt ity off w)"
  "gl_step w (GlDeleteVertexArrays a) (glDeleteVertexArrays a w)"
  "gl_step w (GlDeleteBuffers b) (glDeleteBuffers b w)"
  "gl_step w (GlDeleteProgram pr) (glDeleteProgram pr w)"
  unfolding glGenVertexArrays_def glGenBuffers_def glBindVertexArray_def glBindBuffer_def
    glBufferData_def glVertexAttribPointer_def glEnableVertexAttribArray_def
    glCreateShader_def glShaderSource_def glCompileShader_def
    glGetShaderiv_COMPILE_STATUS_def glGetShaderInfoLog_def glCreateProgram_def
    glAttachShader_def glLinkProgram_def glGetProgramiv_LINK_STATUS_def
    glGetProgramInfoLog_def glDeleteShader_def glViewport_def glClear_def glUseProgram_def
    glDrawElements_def glDeleteVertexArrays_def glDeleteBuffers_def glDeleteProgram_def
  by (rule gl_command_step gl_query_step)+

lemma gl_stepD:
  assumes "gl_step w c w'"
  shows "calls w' = calls w @ [c]"
    and "(context w' = None) = (context w = None)"
    and "contextless w' = (if context w = None then contextless w @ [c] else contextless w)"
    and "stdout w' = stdout w"
    and "stderr w' = stderr w"
    and "exit_status w' = exit_status w"
    and "should_close w' = should_close w"
    and "framebuffer_size w' = framebuffer_size w"
    and "key_callback_installed w' = key_callback_installed w"
    and "window_exists w' = window_exists w"
    and "glfw_initialised w' = glfw_initialised w"
  using assms by (simp_all add: gl_step_def)

lemmas command_frame =
  command_steps [THEN gl_stepD(1)] command_steps [THEN gl_stepD(2)]
  command_steps [THEN gl_stepD(3)] command_steps [THEN gl_stepD(4)]
  command_steps [THEN gl_stepD(5)] command_steps [THEN gl_stepD(6)]
  command_steps [THEN gl_stepD(7)] command_steps [THEN gl_stepD(8)]
  command_steps [THEN gl_stepD(9)] command_steps [THEN gl_stepD(10)]
  command_steps [THEN gl_stepD(11)]

subsection \<open>Geometry set-up\<close>

lemma fresh_nonzero: "fresh n \<noteq> 0"
  by (simp add: fresh_def)

lemma fresh_fresh: "fresh (fresh n) \<noteq> fresh n"
  by (auto simp: fresh_def)

lemma sizeof_vertices: "sizeof_array (FloatArray vertices) = 48"
  by (simp add: vertices_def sizeof_float_def)

lemma sizeof_indices: "sizeof_array (UIntArray indices) = 24"
  by (simp add: indices_def sizeof_GLuint_def)

lemma take_bytes_vertices: "take_bytes 48 (FloatArray vertices) = FloatArray vertices"
  by (simp add: vertices_def sizeof_float_def)

lemma take_bytes_indices: "take_bytes 24 (UIntArray indices) = UIntArray indices"
  by (simp add: indices_def sizeof_GLuint_def)

lemmas geometry_defs = prepare_drawing_data_and_opengl_drawing_data_def
  glGenVertexArrays_def glGenBuffers_def glBindVertexArray_def
  glBindBuffer_def glBufferData_def glVertexAttribPointer_def glEnableVertexAttribArray_def

lemma prepare_calls:
  "context w = Some g \<Longrightarrow>
   calls (snd (prepare_drawing_data_and_opengl_drawing_data w)) = calls w @
     [GlGenVertexArrays (fresh (last_vertex_array g)),
      GlGenBuffers (fresh (last_buffer g)),
      GlGenBuffers (fresh (fresh (last_buffer g))),
      GlBindVertexArray (fresh (last_vertex_array g)),
      GlBindBuffer GL_ARRAY_BUFFER (fresh (last_buffer g)),
      GlBufferData GL_ARRAY_BUFFER 48 (FloatArray vertices) GL_STATIC_DRAW,
      GlBindBuffer GL_ELEMENT_ARRAY_BUFFER (fresh (fresh (last_buffer g))),
      GlBufferData GL_ELEMENT_ARRAY_BUFFER 24 (UIntArray indices) GL_STATIC_DRAW,
      GlVertexAttribPointer 0 3 GL_FLOAT False 12 0,
      GlEnableVertexAttribArray 0,
      GlBindBuffer GL_ARRAY_BUFFER 0,
      GlBindVertexArray 0]"
  by (simp add: geometry_defs gl_command_simps gl_query_simps Let_def split_def
      sizeof_float_def sizeof_vertices sizeof_indices del: sizeof_array.simps)

lemma prepare_names:
  "context w = Some g \<Longrightarrow>
   fst (prepare_drawing_data_and_opengl_drawing_data w) =
     \<lparr>vbo_name = fresh (last_buffer g), ibo_name = fresh (fresh (last_buffer g)),
      vao_name = fresh (last_vertex_array g)\<rparr>"
  by (simp add: geometry_defs gl_command_simps gl_query_simps Let_def split_def)

lemma prepare_frame:
  "stdout (snd (prepare_drawing_data_and_opengl_drawing_data w)) = stdout w"
  "exit_status (snd (prepare_drawing_data_and_opengl_drawing_data w)) = exit_status w"
  "should_close (snd (prepare_drawing_data_and_opengl_drawing_data w)) = should_close w"
  "key_callback_installed (snd (prepare_drawing_data_and_opengl_drawing_data w)) = key_callback_installed w"
  "framebuffer_size (snd (prepare_drawing_data_and_opengl_drawing_data w)) = framebuffer_size w"
  by (simp_all add: geometry_defs gl_command_simps gl_query_simps Let_def split_def)


lemma prepare_context:
  assumes "context w = Some g"
  shows "\<exists>g' va. context (snd (prepare_drawing_data_and_opengl_drawing_data w)) = Some g' \<and>
     buffers g' (fresh (last_buffer g)) =
       Some \<lparr>bo_size = 48, bo_data = FloatArray vertices, bo_usage = GL_STATIC_DRAW\<rparr> \<and>
     buffers g' (fresh (fresh (last_buffer g))) =
       Some \<lparr>bo_size = 24, bo_data = UIntArray indices, bo_usage = GL_STATIC_DRAW\<rparr> \<and>
     vertex_arrays g' (fresh (last_vertex_array g)) = Some va \<and>
     element_array_buffer va = fresh (fresh (last_buffer g)) \<and>
     attribs va 0 =
       Some \<lparr>va_size = 3, va_type = GL_FLOAT, va_normalized = False, va_stride = 12,
             va_offset = 0, va_buffer = fresh (last_buffer g)\<rparr> \<and>
     0 \<in> enabled va \<and>
     array_buffer_binding g' = 0 \<and> vertex_array_binding g' = 0 \<and>
     last_shader_or_program g' = last_shader_or_program g \<and>
     shaders g' = shaders g \<and> programs g' = programs g"
proof -
  let ?vao = "fresh (last_vertex_array g)"
  let ?vbo = "fresh (last_buffer g)"
  let ?ibo = "fresh (fresh (last_buffer g))"
  define w1 where "w1 = snd (glGenVertexArrays w)"
  define w2 where "w2 = snd (glGenBuffers w1)"
  define w3 where "w3 = snd (glGenBuffers w2)"
  define w4 where "w4 = glBindVertexArray ?vao w3"
  define w5 where "w5 = glBindBuffer GL_ARRAY_BUFFER ?vbo w4"
  define w6 where "w6 = glBufferData GL_ARRAY_BUFFER 48 (FloatArray vertices) GL_STATIC_DRAW w5"
  define w7 where "w7 = glBindBuffer GL_ELEMENT_ARRAY_BUFFER ?ibo w6"
  define w8 where "w8 = glBufferData GL_ELEMENT_ARRAY_BUFFER 24 (UIntArray indices) GL_STATIC_DRAW w7"
  define w9 where "w9 = glVertexAttribPointer 0 3 GL_FLOAT False 12 0 w8"
  define w10 where "w10 = glEnableVertexAttribArray 0 w9"
  define w11 where "w11 = glBindBuffer GL_ARRAY_BUFFER 0 w10"
  define w12 where "w12 = glBindVertexArray 0 w11"
  have n1: "fst (glGenVertexArrays w) = ?vao"
    using assms by (simp add: glGenVertexArrays_def gl_query_simps)
  obtain g3 where c3: "context w3 = Some g3"
    and g3: "last_buffer g3 = ?ibo" "buffers g3 = buffers g" "vertex_arrays g3 = vertex_arrays g"
      "array_buffer_binding g3 = array_buffer_binding g"
      "last_shader_or_program g3 = last_shader_or_program g"
      "shaders g3 = shaders g" "programs g3 = programs g"
    and n2: "fst (glGenBuffers w1) = ?vbo" and n3: "fst (glGenBuffers w2) = ?ibo"
    using assms
    by (simp add: w1_def w2_def w3_def glGenVertexArrays_def glGenBuffers_def gl_query_simps)
  obtain g4 va4 where c4: "context w4 = Some g4"
    and g4: "buffers g4 = buffers g" "vertex_arrays g4 ?vao = Some va4"
      "vertex_array_binding g4 = ?vao"
      "last_shader_or_program g4 = last_shader_or_program g"
      "shaders g4 = shaders g" "programs g4 = programs g"
    using c3 g3
    by (cases "vertex_arrays g ?vao")
       (simp_all add: w4_def glBindVertexArray_def gl_command_simps fresh_nonzero)
  obtain g5 where c5: "context w5 = Some g5"
    and g5: "vertex_arrays g5 ?vao = Some va4" "vertex_array_binding g5 = ?vao"
      "array_buffer_binding g5 = ?vbo"
      "last_shader_or_program g5 = last_shader_or_program g"
      "shaders g5 = shaders g" "programs g5 = programs g"
    using c4 g4
    by (simp add: w5_def glBindBuffer_def bind_buffer_def gl_command_simps)
  obtain g6 where c6: "context w6 = Some g6"
    and g6: "vertex_arrays g6 ?vao = Some va4" "vertex_array_binding g6 = ?vao"
      "array_buffer_binding g6 = ?vbo"
      "buffers g6 ?vbo =
         Some \<lparr>bo_size = 48, bo_data = FloatArray vertices, bo_usage = GL_STATIC_DRAW\<rparr>"
      "last_shader_or_program g6 = last_shader_or_program g"
      "shaders g6 = shaders g" "programs g6 = programs g"
    using c5 g5
    by (simp add: w6_def glBufferData_def bound_buffer_def gl_command_simps fresh_nonzero
        take_bytes_vertices del: take_bytes.simps)
  let ?va7 = "va4\<lparr>element_array_buffer := ?ibo\<rparr>"
  obtain g7 where c7: "context w7 = Some g7"
    and g7: "vertex_arrays g7 ?vao = Some ?va7" "vertex_array_binding g7 = ?vao"
      "array_buffer_binding g7 = ?vbo"
      "buffers g7 ?vbo =
         Some \<lparr>bo_size = 48, bo_data = FloatArray vertices, bo_usage = GL_STATIC_DRAW\<rparr>"
      "last_shader_or_program g7 = last_shader_or_program g"
      "shaders g7 = shaders g" "programs g7 = programs g"
    using c6 g6
    by (simp add: w7_def glBindBuffer_def bind_buffer_def gl_command_simps fresh_fresh
        fresh_fresh [symmetric])
  obtain g8 where c8: "context w8 = Some g8"
    and g8: "vertex_arrays g8 ?vao = Some ?va7" "vertex_array_binding g8 = ?vao"
      "array_buffer_binding g8 = ?vbo"
      "buffers g8 ?vbo =
         Some \<lparr>bo_size = 48, bo_data = FloatArray vertices, bo_usage = GL_STATIC_DRAW\<rparr>"
      "buffers g8 ?ibo =
         Some \<lparr>bo_size = 24, bo_data = UIntArray indices, bo_usage = GL_STATIC_DRAW\<rparr>"
      "last_shader_or_program g8 = last_shader_or_program g"
      "shaders g8 = shaders g" "programs g8 = programs g"
    using c7 g7
    by (simp add: w8_def glBufferData_def bound_buffer_def gl_command_simps fresh_nonzero
        fresh_fresh fresh_fresh [symmetric] take_bytes_indices del: take_bytes.simps)
  let ?va9 = "?va7\<lparr>attribs := (attribs va4)(0 \<mapsto>
     \<lparr>va_size = 3, va_type = GL_FLOAT, va_normalized = False, va_stride = 12,
      va_offset = 0, va_buffer = ?vbo\<rparr>)\<rparr>"
  obtain g9 where c9: "context w9 = Some g9"
    and g9: "vertex_arrays g9 ?vao = Some ?va9" "vertex_array_binding g9 = ?vao"
      "buffers g9 = buffers g8"
      "last_shader_or_program g9 = last_shader_or_program g"
      "shaders g9 = shaders g" "programs g9 = programs g"
    using c8 g8
    by (simp add: w9_def glVertexAttribPointer_def gl_command_simps)
  let ?va10 = "?va9\<lparr>enabled := insert 0 (enabled va4)\<rparr>"
  obtain g10 where c10: "context w10 = Some g10"
    and g10: "vertex_arrays g10 ?vao = Some ?va10" "vertex_array_binding g10 = ?vao"
      "buffers g10 = buffers g8"
      "last_shader_or_program g10 = last_shader_or_program g"
      "shaders g10 = shaders g" "programs g10 = programs g"
    using c9 g9
    by (simp add: w10_def glEnableVertexAttribArray_def gl_command_simps)
  obtain g11 where c11: "context w11 = Some g11"
    and g11: "vertex_arrays g11 ?vao = Some ?va10" "array_buffer_binding g11 = 0"
      "buffers g11 = buffers g8"
      "last_shader_or_program g11 = last_shader_or_program g"
      "shaders g11 = shaders g" "programs g11 = programs g"
    using c10 g10
    by (simp add: w11_def glBindBuffer_def bind_buffer_def gl_command_simps)
  obtain g12 where c12: "context w12 = Some g12"
    and g12: "vertex_arrays g12 ?vao = Some ?va10" "array_buffer_binding g12 = 0"
      "vertex_array_binding g12 = 0" "buffers g12 = buffers g8"
      "last_shader_or_program g12 = last_shader_or_program g"
      "shaders g12 = shaders g" "programs g12 = programs g"
    using c11 g11
    by (simp add: w12_def glBindVertexArray_def gl_command_simps)
  have "snd (prepare_drawing_data_and_opengl_drawing_data w) = w12"
    using n1 n2 n3
    unfolding w12_def w11_def w10_def w9_def w8_def w7_def w6_def w5_def w4_def w3_def
      w2_def w1_def
    by (simp add: prepare_drawing_data_and_opengl_drawing_data_def Let_def split_def
        sizeof_vertices sizeof_indices sizeof_float_def del: sizeof_array.simps)
  with c12 g12 g8 show ?thesis
    by simp
qed

lemma main_window_context: "context (main_window pf) = Some new_context"
  by (simp add: main_window_def initialize_glfw_glad_and_return_window_def log_call_def)

lemma main_window_names:
  "fst (prepare_drawing_data_and_opengl_drawing_data (main_window pf)) =
     \<lparr>vbo_name = 1, ibo_name = 2, vao_name = 1\<rparr>"
  using prepare_names [OF main_window_context, of pf]
  by (simp add: new_context_def fresh_def)

lemma decode_vertices:
  "decode_attrib
     \<lparr>va_size = 3, va_type = GL_FLOAT, va_normalized = False, va_stride = 12,
      va_offset = 0, va_buffer = b\<rparr>
     \<lparr>bo_size = 48, bo_data = FloatArray vertices, bo_usage = GL_STATIC_DRAW\<rparr> =
   [[0.5, 0.5, 0], [0.5, -0.5, 0], [-0.5, -0.5, 0], [-0.5, 0.5, 0]]"
  by (simp add: decode_attrib_def fetch_attrib_def effective_stride_def vertices_def
      sizeof_float_def upt_rec)

lemma prepare_result:
  "prepare_drawing_data_and_opengl_drawing_data w = (d, w') \<Longrightarrow>
   d = fst (prepare_drawing_data_and_opengl_drawing_data w) \<and>
   w' = snd (prepare_drawing_data_and_opengl_drawing_data w)"
  by simp

text \<open>
  Claim C1. The vertex array that geometry set-up uploads to the vertex buffer is the
  twelve floats \<open>0.5, 0.5, 0, 0.5, -0.5, 0, -0.5, -0.5, 0, -0.5, 0.5, 0\<close> (48 bytes), and
  read through attribute 0 of the vertex array object, as three floats per vertex, it
  decodes to the four positions \<open>(0.5, 0.5, 0)\<close>, \<open>(0.5, -0.5, 0)\<close>, \<open>(-0.5, -0.5, 0)\<close>,
  \<open>(-0.5, 0.5, 0)\<close>, in that order.
\<close>

theorem uploaded_vertex_positions:
  assumes "context w = Some g"
    and "prepare_drawing_data_and_opengl_drawing_data w = (d, w')"
  shows "\<exists>g'. context w' = Some g' \<and>
     buffers g' (vbo_name d) =
       Some \<lparr>bo_size = 48,
             bo_data = FloatArray [0.5, 0.5, 0, 0.5, -0.5, 0, -0.5, -0.5, 0, -0.5, 0.5, 0],
             bo_usage = GL_STATIC_DRAW\<rparr> \<and>
     attrib_values g' (vao_name d) 0 =
       Some [[0.5, 0.5, 0], [0.5, -0.5, 0], [-0.5, -0.5, 0], [-0.5, 0.5, 0]]"
proof -
  note r = prepare_result [OF assms(2)]
  from prepare_context [OF assms(1)] obtain g' va where
    "context w' = Some g'"
    "buffers g' (fresh (last_buffer g)) =
       Some \<lparr>bo_size = 48, bo_data = FloatArray vertices, bo_usage = GL_STATIC_DRAW\<rparr>"
    "vertex_arrays g' (fresh (last_vertex_array g)) = Some va"
    "attribs va 0 =
       Some \<lparr>va_size = 3, va_type = GL_FLOAT, va_normalized = False, va_stride = 12,
             va_offset = 0, va_buffer = fresh (last_buffer g)\<rparr>"
    using r by blast
  moreover have "vertices = [0.5, 0.5, 0, 0.5, -0.5, 0, -0.5, -0.5, 0, -0.5, 0.5, 0]"
    by (simp add: vertices_def)
  ultimately show ?thesis
    using decode_vertices [of "fresh (last_buffer g)"]
    by (simp add: r prepare_names [OF assms(1)] attrib_values_def)
qed

theorem uploaded_vertex_positions_witness:
  "context (main_window conformant_platform) = Some new_context \<and>
   (\<exists>g'. context (snd (prepare_drawing_data_and_opengl_drawing_data
                        (main_window conformant_platform))) = Some g' \<and>
     buffers g' 1 =
       Some \<lparr>bo_size = 48,
             bo_data = FloatArray [0.5, 0.5, 0, 0.5, -0.5, 0, -0.5, -0.5, 0, -0.5, 0.5, 0],
             bo_usage = GL_STATIC_DRAW\<rparr> \<and>
     attrib_values g' 1 0 =
       Some [[0.5, 0.5, 0], [0.5, -0.5, 0], [-0.5, -0.5, 0], [-0.5, 0.5, 0]])"
  using uploaded_vertex_positions [OF main_window_context prod.collapse [symmetric],
      of conformant_platform]
  by (simp add: main_window_names main_window_context)

text \<open>
  Claim C2. The index array that geometry set-up uploads to the index buffer is
  \<open>[0, 1, 3, 1, 2, 3]\<close>: six unsigned integers (24 bytes), which an indexed draw of six
  indices from offset 0 reads as the triangles \<open>(0, 1, 3)\<close> and \<open>(1, 2, 3)\<close>.
\<close>

theorem uploaded_indices:
  assumes "context w = Some g"
    and "prepare_drawing_data_and_opengl_drawing_data w = (d, w')"
  shows "\<exists>g'. context w' = Some g' \<and>
     buffers g' (ibo_name d) =
       Some \<lparr>bo_size = 24, bo_data = UIntArray [0, 1, 3, 1, 2, 3],
             bo_usage = GL_STATIC_DRAW\<rparr> \<and>
     element_indices g' (vao_name d) 6 0 = Some [0, 1, 3, 1, 2, 3] \<and>
     map_option triangles (element_indices g' (vao_name d) 6 0) =
       Some [(0, 1, 3), (1, 2, 3)]"
proof -
  note r = prepare_result [OF assms(2)]
  from prepare_context [OF assms(1)] obtain g' va where
    "context w' = Some g'"
    "buffers g' (fresh (fresh (last_buffer g))) =
       Some \<lparr>bo_size = 24, bo_data = UIntArray indices, bo_usage = GL_STATIC_DRAW\<rparr>"
    "vertex_arrays g' (fresh (last_vertex_array g)) = Some va"
    "element_array_buffer va = fresh (fresh (last_buffer g))"
    using r by blast
  then show ?thesis
    by (simp add: r prepare_names [OF assms(1)] element_indices_def indices_def
        sizeof_GLuint_def)
qed

theorem uploaded_indices_witness:
  "context (main_window conformant_platform) = Some new_context \<and>
   (\<exists>g'. context (snd (prepare_drawing_data_and_opengl_drawing_data
                        (main_window conformant_platform))) = Some g' \<and>
     buffers g' 2 =
       Some \<lparr>bo_size = 24, bo_data = UIntArray [0, 1, 3, 1, 2, 3],
             bo_usage = GL_STATIC_DRAW\<rparr> \<and>
     element_indices g' 1 6 0 = Some [0, 1, 3, 1, 2, 3] \<and>
     map_option triangles (element_indices g' 1 6 0) = Some [(0, 1, 3), (1, 2, 3)])"
  using uploaded_indices [OF main_window_context prod.collapse [symmetric],
      of conformant_platform]
  by (simp add: main_window_names main_window_context)

text \<open>
  Claim C8. Geometry set-up binds the vertex buffer and unbinds it again (binds zero to
  \<open>GL_ARRAY_BUFFER\<close>) before it returns; it never binds zero to
  \<open>GL_ELEMENT_ARRAY_BUFFER\<close>; and on return the vertex array object still has the
  index buffer as its element array buffer.
\<close>

theorem index_buffer_stays_with_vertex_array:
  assumes "context w = Some g"
    and "prepare_drawing_data_and_opengl_drawing_data w = (d, w')"
  shows "calls w' = calls w @
       [GlGenVertexArrays (vao_name d),
        GlGenBuffers (vbo_name d),
        GlGenBuffers (ibo_name d),
        GlBindVertexArray (vao_name d),
        GlBindBuffer GL_ARRAY_BUFFER (vbo_name d),
        GlBufferData GL_ARRAY_BUFFER 48 (FloatArray vertices) GL_STATIC_DRAW,
        GlBindBuffer GL_ELEMENT_ARRAY_BUFFER (ibo_name d),
        GlBufferData GL_ELEMENT_ARRAY_BUFFER 24 (UIntArray indices) GL_STATIC_DRAW,
        GlVertexAttribPointer 0 3 GL_FLOAT False 12 0,
        GlEnableVertexAttribArray 0,
        GlBindBuffer GL_ARRAY_BUFFER 0,
        GlBindVertexArray 0] \<and>
     vao_name d \<noteq> 0 \<and> vbo_name d \<noteq> 0 \<and> ibo_name d \<noteq> 0 \<and>
     GlBindBuffer GL_ELEMENT_ARRAY_BUFFER 0 \<notin> set (drop (length (calls w)) (calls w')) \<and>
     (\<exists>g' va. context w' = Some g' \<and> array_buffer_binding g' = 0 \<and>
        vertex_arrays g' (vao_name d) = Some va \<and>
        element_array_buffer va = ibo_name d)"
proof -
  note r = prepare_result [OF assms(2)]
  note n = prepare_names [OF assms(1)]
  have c: "calls w' = calls w @
       [GlGenVertexArrays (vao_name d),
        GlGenBuffers (vbo_name d),
        GlGenBuffers (ibo_name d),
        GlBindVertexArray (vao_name d),
        GlBindBuffer GL_ARRAY_BUFFER (vbo_name d),
        GlBufferData GL_ARRAY_BUFFER 48 (FloatArray vertices) GL_STATIC_DRAW,
        GlBindBuffer GL_ELEMENT_ARRAY_BUFFER (ibo_name d),
        GlBufferData GL_ELEMENT_ARRAY_BUFFER 24 (UIntArray indices) GL_STATIC_DRAW,
        GlVertexAttribPointer 0 3 GL_FLOAT False 12 0,
        GlEnableVertexAttribArray 0,
        GlBindBuffer GL_ARRAY_BUFFER 0,
        GlBindVertexArray 0]"
    using prepare_calls [OF assms(1)] by (simp add: r n)
  have z: "vao_name d \<noteq> 0 \<and> vbo_name d \<noteq> 0 \<and> ibo_name d \<noteq> 0"
    by (simp add: r n fresh_nonzero)
  have u: "GlBindBuffer GL_ELEMENT_ARRAY_BUFFER 0 \<notin> set (drop (length (calls w)) (calls w'))"
    using z by (simp add: c)
  from prepare_context [OF assms(1)] obtain g' va where
    "context w' = Some g'" "array_buffer_binding g' = 0"
    "vertex_arrays g' (fresh (last_vertex_array g)) = Some va"
    "element_array_buffer va = fresh (fresh (last_buffer g))"
    using r by blast
  then have "\<exists>g' va. context w' = Some g' \<and> array_buffer_binding g' = 0 \<and>
        vertex_arrays g' (vao_name d) = Some va \<and> element_array_buffer va = ibo_name d"
    by (simp add: r n)
  with c z u show ?thesis
    by blast
qed

theorem index_buffer_stays_with_vertex_array_witness:
  "context (main_window conformant_platform) = Some new_context \<and>
   calls (snd (prepare_drawing_data_and_opengl_drawing_data (main_window conformant_platform))) =
     calls (main_window conformant_platform) @
       [GlGenVertexArrays 1,
        GlGenBuffers 1,
        GlGenBuffers 2,
        GlBindVertexArray 1,
        GlBindBuffer GL_ARRAY_BUFFER 1,
        GlBufferData GL_ARRAY_BUFFER 48 (FloatArray vertices) GL_STATIC_DRAW,
        GlBindBuffer GL_ELEMENT_ARRAY_BUFFER 2,
        GlBufferData GL_ELEMENT_ARRAY_BUFFER 24 (UIntArray indices) GL_STATIC_DRAW,
        GlVertexAttribPointer 0 3 GL_FLOAT False 12 0,
        GlEnableVertexAttribArray 0,
        GlBindBuffer GL_ARRAY_BUFFER 0,
        GlBindVertexArray 0] \<and>
   (\<exists>g' va. context (snd (prepare_drawing_data_and_opengl_drawing_data
                           (main_window conformant_platform))) = Some g' \<and>
      array_buffer_binding g' = 0 \<and> vertex_arrays g' 1 = Some va \<and>
      element_array_buffer va = 2)"
  using index_buffer_stays_with_vertex_array [OF main_window_context prod.collapse [symmetric],
      of conformant_platform]
  by (simp add: main_window_names main_window_context)

subsection \<open>Building the shader program\<close>

lemma cout_simps:
  "stdout (cout s w) = stdout w @ s"
  "calls (cout s w) = calls w"
  "context (cout s w) = context w"
  "contextless (cout s w) = contextless w"
  "exit_status (cout s w) = exit_status w"
  "should_close (cout s w) = should_close w"
  "framebuffer_size (cout s w) = framebuffer_size w"
  "key_callback_installed (cout s w) = key_callback_installed w"
  by (simp_all add: cout_def)


lemma create_shader_program_run:
  shows "exit_status (snd (create_shader_program pf w)) = exit_status w" (is ?exit)
    and "should_close (snd (create_shader_program pf w)) = should_close w" (is ?close)
    and "key_callback_installed (snd (create_shader_program pf w)) =
         key_callback_installed w" (is ?key)
    and "framebuffer_size (snd (create_shader_program pf w)) = framebuffer_size w" (is ?size)
    and "(context (snd (create_shader_program pf w)) = None) = (context w = None)" (is ?ctx)
    and "context w \<noteq> None \<Longrightarrow>
         contextless (snd (create_shader_program pf w)) = contextless w" (is "_ \<Longrightarrow> ?less")
    and "context w = Some g \<Longrightarrow>
         fst (create_shader_program pf w) =
           fresh (fresh (fresh (last_shader_or_program g)))" (is "_ \<Longrightarrow> ?name")
    and "context w = Some g \<Longrightarrow>
         calls (snd (create_shader_program pf w)) = calls w @
           [GlCreateShader GL_VERTEX_SHADER (fresh (last_shader_or_program g)),
            GlShaderSource (fresh (last_shader_or_program g)) vertex_shader_text,
            GlCompileShader (fresh (last_shader_or_program g)),
            GlGetShaderiv_COMPILE_STATUS (fresh (last_shader_or_program g))
              (fst (vertex_result pf))] @
           (if fst (vertex_result pf) then []
            else [GlGetShaderInfoLog (fresh (last_shader_or_program g)) 512
                    (take 511 (snd (vertex_result pf)))]) @
           [GlCreateShader GL_FRAGMENT_SHADER (fresh (fresh (last_shader_or_program g))),
            GlShaderSource (fresh (fresh (last_shader_or_program g))) fragment_shader_text,
            GlCompileShader (fresh (fresh (last_shader_or_program g))),
            GlGetShaderiv_COMPILE_STATUS (fresh (fresh (last_shader_or_program g)))
              (fst (fragment_result pf))] @
           (if fst (fragment_result pf) then []
            else [GlGetShaderInfoLog (fresh (fresh (last_shader_or_program g))) 512
                    (take 511 (snd (fragment_result pf)))]) @
           [GlCreateProgram (fresh (fresh (fresh (last_shader_or_program g)))),
            GlAttachShader (fresh (fresh (fresh (last_shader_or_program g))))
              (fresh (last_shader_or_program g)),
            GlAttachShader (fresh (fresh (fresh (last_shader_or_program g))))
              (fresh (fresh (last_shader_or_program g))),
            GlLinkProgram (fresh (fresh (fresh (last_shader_or_program g)))),
            GlGetProgramiv_LINK_STATUS (fresh (fresh (fresh (last_shader_or_program g))))
              (fst (link_result pf))] @
           (if fst (link_result pf) then []
            else [GlGetProgramInfoLog (fresh (fresh (fresh (last_shader_or_program g)))) 512
                    (take 511 (snd (link_result pf)))]) @
           [GlDeleteShader (fresh (last_shader_or_program g)),
            GlDeleteShader (fresh (fresh (last_shader_or_program g)))]"
         (is "_ \<Longrightarrow> ?calls")
    and "context w = Some g \<Longrightarrow>
         stdout (snd (create_shader_program pf w)) = stdout w @
           (if fst (vertex_result pf) then []
            else ''ERROR::SHADER::VERTEX::COMPILATION_FAILED'' @ [CHR 0x0A] @
                 take 511 (snd (vertex_result pf)) @ [CHR 0x0A]) @
           (if fst (fragment_result pf) then []
            else ''ERROR::SHADER::FRAGMENT::COMPILATION_FAILED'' @ [CHR 0x0A] @
                 take 511 (snd (fragment_result pf)) @ [CHR 0x0A]) @
           (if fst (link_result pf) then []
            else ''ERROR::SHADER::PROGRAM::LINKING_FAILED'' @ [CHR 0x0A] @
                 take 511 (snd (link_result pf)) @ [CHR 0x0A])"
         (is "_ \<Longrightarrow> ?out")
    and "context w = Some g \<Longrightarrow>
         \<exists>g'. context (snd (create_shader_program pf w)) = Some g' \<and>
           shaders g' (fresh (last_shader_or_program g)) =
             Some \<lparr>sh_type = GL_VERTEX_SHADER, sh_source = vertex_shader_text,
                   sh_compiled = fst (vertex_result pf), sh_log = snd (vertex_result pf),
                   sh_attachments = 1, sh_delete_flag = True\<rparr> \<and>
           shaders g' (fresh (fresh (last_shader_or_program g))) =
             Some \<lparr>sh_type = GL_FRAGMENT_SHADER, sh_source = fragment_shader_text,
                   sh_compiled = fst (fragment_result pf), sh_log = snd (fragment_result pf),
                   sh_attachments = 1, sh_delete_flag = True\<rparr> \<and>
           programs g' (fresh (fresh (fresh (last_shader_or_program g)))) =
             Some \<lparr>pr_shaders = [fresh (last_shader_or_program g),
                                 fresh (fresh (last_shader_or_program g))],
                   pr_linked = fst (link_result pf), pr_log = snd (link_result pf)\<rparr>"
         (is "_ \<Longrightarrow> ?objects")
proof -
  define vs where "vs = fst (glCreateShader GL_VERTEX_SHADER w)"
  define w1 where "w1 = snd (glCreateShader GL_VERTEX_SHADER w)"
  define w2 where "w2 = glShaderSource vs vertex_shader_text w1"
  define w3 where "w3 = glCompileShader pf vs w2"
  define s1 where "s1 = fst (glGetShaderiv_COMPILE_STATUS vs w3)"
  define w4 where "w4 = snd (glGetShaderiv_COMPILE_STATUS vs w3)"
  define i1 where "i1 = fst (glGetShaderInfoLog vs 512 w4)"
  define x1 where "x1 = snd (glGetShaderInfoLog vs 512 w4)"
  define w5 where "w5 =
    (if \<not> s1 then cout (''ERROR::SHADER::VERTEX::COMPILATION_FAILED\<newline>'' @ i1 @ endl) x1
     else w4)"
  define fs where "fs = fst (glCreateShader GL_FRAGMENT_SHADER w5)"
  define w6 where "w6 = snd (glCreateShader GL_FRAGMENT_SHADER w5)"
  define w7 where "w7 = glShaderSource fs fragment_shader_text w6"
  define w8 where "w8 = glCompileShader pf fs w7"
  define s2 where "s2 = fst (glGetShaderiv_COMPILE_STATUS fs w8)"
  define w9 where "w9 = snd (glGetShaderiv_COMPILE_STATUS fs w8)"
  define i2 where "i2 = fst (glGetShaderInfoLog fs 512 w9)"
  define x2 where "x2 = snd (glGetShaderInfoLog fs 512 w9)"
  define w10 where "w10 =
    (if \<not> s2 then cout (''ERROR::SHADER::FRAGMENT::COMPILATION_FAILED\<newline>'' @ i2 @ endl) x2
     else w9)"
  define p where "p = fst (glCreateProgram w10)"
  define w11 where "w11 = snd (glCreateProgram w10)"
  define w12 where "w12 = glAttachShader p vs w11"
  define w13 where "w13 = glAttachShader p fs w12"
  define w14 where "w14 = glLinkProgram pf p w13"
  define s3 where "s3 = fst (glGetProgramiv_LINK_STATUS p w14)"
  define w15 where "w15 = snd (glGetProgramiv_LINK_STATUS p w14)"
  define i3 where "i3 = fst (glGetProgramInfoLog p 512 w15)"
  define x3 where "x3 = snd (glGetProgramInfoLog p 512 w15)"
  define w16 where "w16 =
    (if \<not> s3 then cout (''ERROR::SHADER::PROGRAM::LINKING_FAILED\<newline>'' @ i3 @ endl) x3
     else w15)"
  define w17 where "w17 = glDeleteShader vs w16"
  define w18 where "w18 = glDeleteShader fs w17"
  note steps = w1_def w2_def w3_def w4_def x1_def w5_def w6_def w7_def w8_def w9_def
    x2_def w10_def w11_def w12_def w13_def w14_def w15_def x3_def w16_def w17_def w18_def
  have run: "create_shader_program pf w = (p, w18)"
    unfolding create_shader_program_def Let_def split_def steps
      vs_def fs_def p_def s1_def s2_def s3_def i1_def i2_def i3_def
    by (rule refl)
  have stage1:
    "exit_status w5 = exit_status w" "should_close w5 = should_close w"
    "key_callback_installed w5 = key_callback_installed w"
    "framebuffer_size w5 = framebuffer_size w"
    "(context w5 = None) = (context w = None)"
    "context w \<noteq> None \<Longrightarrow> contextless w5 = contextless w"
    by (auto simp add: w1_def w2_def w3_def w4_def x1_def w5_def command_frame cout_simps)
  have stage2:
    "exit_status w10 = exit_status w5" "should_close w10 = should_close w5"
    "key_callback_installed w10 = key_callback_installed w5"
    "framebuffer_size w10 = framebuffer_size w5"
    "(context w10 = None) = (context w5 = None)"
    "context w5 \<noteq> None \<Longrightarrow> contextless w10 = contextless w5"
    by (auto simp add: w6_def w7_def w8_def w9_def x2_def w10_def command_frame cout_simps)
  have stage3:
    "exit_status w16 = exit_status w10" "should_close w16 = should_close w10"
    "key_callback_installed w16 = key_callback_installed w10"
    "framebuffer_size w16 = framebuffer_size w10"
    "(context w16 = None) = (context w10 = None)"
    "context w10 \<noteq> None \<Longrightarrow> contextless w16 = contextless w10"
    by (auto simp add: w11_def w12_def w13_def w14_def w15_def x3_def w16_def command_frame
        cout_simps)
  have stage4:
    "exit_status w18 = exit_status w16" "should_close w18 = should_close w16"
    "key_callback_installed w18 = key_callback_installed w16"
    "framebuffer_size w18 = framebuffer_size w16"
    "(context w18 = None) = (context w16 = None)"
    "context w16 \<noteq> None \<Longrightarrow> contextless w18 = contextless w16"
    by (auto simp add: w17_def w18_def command_frame)
  show ?exit
    by (simp add: run stage1 stage2 stage3 stage4)
  show ?close
    by (simp add: run stage1 stage2 stage3 stage4)
  show ?key
    by (simp add: run stage1 stage2 stage3 stage4)
  show ?size
    by (simp add: run stage1 stage2 stage3 stage4)
  show ?ctx
    by (simp add: run stage1 stage2 stage3 stage4)
  show ?less if c: "context w \<noteq> None"
  proof -
    from c stage1(5) have c5: "context w5 \<noteq> None"
      by simp
    with stage2(5) have c10: "context w10 \<noteq> None"
      by simp
    with stage3(5) have c16: "context w16 \<noteq> None"
      by simp
    show ?thesis
      using stage1(6) [OF c] stage2(6) [OF c5] stage3(6) [OF c10] stage4(6) [OF c16]
      by (simp add: run)
  qed
  {
    assume c0: "context w = Some g"
    let ?V = "fresh (last_shader_or_program g)"
    let ?F = "fresh (fresh (last_shader_or_program g))"
    let ?P = "fresh (fresh (fresh (last_shader_or_program g)))"
    let ?vsh = "\<lparr>sh_type = GL_VERTEX_SHADER, sh_source = vertex_shader_text,
      sh_compiled = fst (vertex_result pf), sh_log = snd (vertex_result pf),
      sh_attachments = 0, sh_delete_flag = False\<rparr>"
    let ?fsh = "\<lparr>sh_type = GL_FRAGMENT_SHADER, sh_source = fragment_shader_text,
      sh_compiled = fst (fragment_result pf), sh_log = snd (fragment_result pf),
      sh_attachments = 0, sh_delete_flag = False\<rparr>"
    have vs: "vs = ?V"
      using c0 by (simp add: vs_def glCreateShader_def gl_query_simps)
    obtain g3 where c3: "context w3 = Some g3"
      and g3: "shaders g3 ?V = Some ?vsh" "last_shader_or_program g3 = ?V"
      using c0
      by (simp add: w1_def w2_def w3_def vs glCreateShader_def glShaderSource_def
          glCompileShader_def gl_query_simps gl_command_simps new_shader_def)
    have s1: "s1 = fst (vertex_result pf)" and c4: "context w4 = Some g3"
      using c3 g3
      by (simp_all add: s1_def w4_def vs glGetShaderiv_COMPILE_STATUS_def gl_query_simps)
    have i1: "i1 = take 511 (snd (vertex_result pf))" and cx1: "context x1 = Some g3"
      using c4 g3
      by (simp_all add: i1_def x1_def vs glGetShaderInfoLog_def gl_query_simps)
    have c5: "context w5 = Some g3"
      using c4 cx1 by (simp add: w5_def cout_simps)
    have fs: "fs = ?F"
      using c5 g3 by (simp add: fs_def glCreateShader_def gl_query_simps)
    obtain g8 where c8: "context w8 = Some g8"
      and g8: "shaders g8 ?V = Some ?vsh" "shaders g8 ?F = Some ?fsh"
        "last_shader_or_program g8 = ?F"
      using c5 g3
      by (simp add: w6_def w7_def w8_def fs glCreateShader_def glShaderSource_def
          glCompileShader_def gl_query_simps gl_command_simps new_shader_def
          fresh_fresh fresh_fresh [symmetric])
    have s2: "s2 = fst (fragment_result pf)" and c9: "context w9 = Some g8"
      using c8 g8
      by (simp_all add: s2_def w9_def fs glGetShaderiv_COMPILE_STATUS_def gl_query_simps)
    have i2: "i2 = take 511 (snd (fragment_result pf))" and cx2: "context x2 = Some g8"
      using c9 g8
      by (simp_all add: i2_def x2_def fs glGetShaderInfoLog_def gl_query_simps)
    have c10: "context w10 = Some g8"
      using c9 cx2 by (simp add: w10_def cout_simps)
    have p: "p = ?P"
      using c10 g8 by (simp add: p_def glCreateProgram_def gl_query_simps)
    obtain g11 where c11: "context w11 = Some g11"
      and g11: "shaders g11 ?V = Some ?vsh" "shaders g11 ?F = Some ?fsh"
        "programs g11 ?P = Some new_program"
      using c10 g8
      by (simp add: w11_def glCreateProgram_def gl_query_simps)
    obtain g12 where c12: "context w12 = Some g12"
      and g12: "shaders g12 ?V = Some (?vsh\<lparr>sh_attachments := 1\<rparr>)"
        "shaders g12 ?F = Some ?fsh"
        "programs g12 ?P = Some (new_program\<lparr>pr_shaders := [?V]\<rparr>)"
      using c11 g11
      by (simp add: w12_def p vs glAttachShader_def gl_command_simps new_program_def
          fresh_fresh fresh_fresh [symmetric])
    obtain g13 where c13: "context w13 = Some g13"
      and g13: "shaders g13 ?V = Some (?vsh\<lparr>sh_attachments := 1\<rparr>)"
        "shaders g13 ?F = Some (?fsh\<lparr>sh_attachments := 1\<rparr>)"
        "programs g13 ?P = Some (new_program\<lparr>pr_shaders := [?V, ?F]\<rparr>)"
      using c12 g12
      by (simp add: w13_def p fs glAttachShader_def gl_command_simps new_program_def
          fresh_fresh fresh_fresh [symmetric])
    obtain g14 where c14: "context w14 = Some g14"
      and g14: "shaders g14 ?V = Some (?vsh\<lparr>sh_attachments := 1\<rparr>)"
        "shaders g14 ?F = Some (?fsh\<lparr>sh_attachments := 1\<rparr>)"
        "programs g14 ?P =
           Some \<lparr>pr_shaders = [?V, ?F], pr_linked = fst (link_result pf),
                 pr_log = snd (link_result pf)\<rparr>"
      using c13 g13
      by (simp add: w14_def p glLinkProgram_def gl_command_simps new_program_def
          attached_shaders_def)
    have s3: "s3 = fst (link_result pf)" and c15: "context w15 = Some g14"
      using c14 g14
      by (simp_all add: s3_def w15_def p glGetProgramiv_LINK_STATUS_def gl_query_simps)
    have i3: "i3 = take 511 (snd (link_result pf))" and cx3: "context x3 = Some g14"
      using c15 g14
      by (simp_all add: i3_def x3_def p glGetProgramInfoLog_def gl_query_simps)
    have c16: "context w16 = Some g14"
      using c15 cx3 by (simp add: w16_def cout_simps)
    obtain g18 where c18: "context w18 = Some g18"
      and g18: "shaders g18 ?V = Some (?vsh\<lparr>sh_attachments := 1, sh_delete_flag := True\<rparr>)"
        "shaders g18 ?F = Some (?fsh\<lparr>sh_attachments := 1, sh_delete_flag := True\<rparr>)"
        "programs g18 ?P =
           Some \<lparr>pr_shaders = [?V, ?F], pr_linked = fst (link_result pf),
                 pr_log = snd (link_result pf)\<rparr>"
      using c16 g14
      by (simp add: w17_def w18_def vs fs glDeleteShader_def gl_command_simps
          fresh_fresh fresh_fresh [symmetric])
    show ?name
      by (simp add: run p)
    show ?objects
      using c18 g18 by (simp add: run)
    have "calls w5 = calls w @
        [GlCreateShader GL_VERTEX_SHADER vs, GlShaderSource vs vertex_shader_text,
         GlCompileShader vs, GlGetShaderiv_COMPILE_STATUS vs s1] @
        (if s1 then [] else [GlGetShaderInfoLog vs 512 i1])"
      by (simp add: w1_def w2_def w3_def w4_def x1_def w5_def command_frame cout_simps
          vs_def s1_def i1_def)
    then have k5: "calls w5 = calls w @
        [GlCreateShader GL_VERTEX_SHADER ?V, GlShaderSource ?V vertex_shader_text,
         GlCompileShader ?V, GlGetShaderiv_COMPILE_STATUS ?V (fst (vertex_result pf))] @
        (if fst (vertex_result pf) then []
         else [GlGetShaderInfoLog ?V 512 (take 511 (snd (vertex_result pf)))])"
      by (simp only: vs s1 i1)
    have "calls w10 = calls w5 @
        [GlCreateShader GL_FRAGMENT_SHADER fs, GlShaderSource fs fragment_shader_text,
         GlCompileShader fs, GlGetShaderiv_COMPILE_STATUS fs s2] @
        (if s2 then [] else [GlGetShaderInfoLog fs 512 i2])"
      by (simp add: w6_def w7_def w8_def w9_def x2_def w10_def command_frame cout_simps
          fs_def s2_def i2_def)
    then have k10: "calls w10 = calls w5 @
        [GlCreateShader GL_FRAGMENT_SHADER ?F, GlShaderSource ?F fragment_shader_text,
         GlCompileShader ?F, GlGetShaderiv_COMPILE_STATUS ?F (fst (fragment_result pf))] @
        (if fst (fragment_result pf) then []
         else [GlGetShaderInfoLog ?F 512 (take 511 (snd (fragment_result pf)))])"
      by (simp only: fs s2 i2)
    have "calls w16 = calls w10 @
        [GlCreateProgram p, GlAttachShader p vs, GlAttachShader p fs, GlLinkProgram p,
         GlGetProgramiv_LINK_STATUS p s3] @
        (if s3 then [] else [GlGetProgramInfoLog p 512 i3])"
      by (simp add: w11_def w12_def w13_def w14_def w15_def x3_def w16_def command_frame
          cout_simps p_def s3_def i3_def)
    then have k16: "calls w16 = calls w10 @
        [GlCreateProgram ?P, GlAttachShader ?P ?V, GlAttachShader ?P ?F, GlLinkProgram ?P,
         GlGetProgramiv_LINK_STATUS ?P (fst (link_result pf))] @
        (if fst (link_result pf) then []
         else [GlGetProgramInfoLog ?P 512 (take 511 (snd (link_result pf)))])"
      by (simp only: p vs fs s3 i3)
    have "calls w18 = calls w16 @ [GlDeleteShader vs, GlDeleteShader fs]"
      by (simp add: w17_def w18_def command_frame)
    then have k18: "calls w18 = calls w16 @ [GlDeleteShader ?V, GlDeleteShader ?F]"
      by (simp only: vs fs)
    show ?calls
      by (simp add: run k18 k16 k10 k5)
    have o5: "stdout w5 = stdout w @
        (if fst (vertex_result pf) then []
         else ''ERROR::SHADER::VERTEX::COMPILATION_FAILED'' @ [CHR 0x0A] @
              take 511 (snd (vertex_result pf)) @ [CHR 0x0A])"
      using s1 i1
      by (simp add: w1_def w2_def w3_def w4_def x1_def w5_def command_frame cout_simps
          endl_def)
    have o10: "stdout w10 = stdout w5 @
        (if fst (fragment_result pf) then []
         else ''ERROR::SHADER::FRAGMENT::COMPILATION_FAILED'' @ [CHR 0x0A] @
              take 511 (snd (fragment_result pf)) @ [CHR 0x0A])"
      using s2 i2
      by (simp add: w6_def w7_def w8_def w9_def x2_def w10_def command_frame cout_simps
          endl_def)
    have o16: "stdout w16 = stdout w10 @
        (if fst (link_result pf) then []
         else ''ERROR::SHADER::PROGRAM::LINKING_FAILED'' @ [CHR 0x0A] @
              take 511 (snd (link_result pf)) @ [CHR 0x0A])"
      using s3 i3
      by (simp add: w11_def w12_def w13_def w14_def w15_def x3_def w16_def command_frame
          cout_simps endl_def)
    have o18: "stdout w18 = stdout w16"
      by (simp add: w17_def w18_def command_frame)
    show ?out
      by (simp add: run o18 o16 o10 o5)
  }
qed

subsection \<open>Events and the render loop\<close>

lemma log_call_simps:
  "calls (log_call c w) = calls w @ [c]"
  "context (log_call c w) = context w"
  "contextless (log_call c w) = contextless w"
  "stdout (log_call c w) = stdout w"
  "exit_status (log_call c w) = exit_status w"
  "should_close (log_call c w) = should_close w"
  "framebuffer_size (log_call c w) = framebuffer_size w"
  "key_callback_installed (log_call c w) = key_callback_installed w"
  by (simp_all add: log_call_def)

lemma key_callback_eq:
  "key_callback key scancode action mods w =
     (if key = GLFW_KEY_ESCAPE \<and> action = GLFW_PRESS then w\<lparr>should_close := True\<rparr> else w)"
  by (simp add: key_callback_def glfwSetWindowShouldClose_def GLFW_TRUE_def)

lemma deliver_frame:
  "calls (deliver e w) = calls w"
  "context (deliver e w) = context w"
  "contextless (deliver e w) = contextless w"
  "stdout (deliver e w) = stdout w"
  "exit_status (deliver e w) = exit_status w"
  "key_callback_installed (deliver e w) = key_callback_installed w"
  by (cases e; simp add: key_callback_eq)+

lemma deliver_keeps_close: "should_close w \<Longrightarrow> should_close (deliver e w)"
  by (cases e) (simp_all add: key_callback_eq)

lemma fold_deliver_frame:
  "calls (fold deliver batch w) = calls w"
  "context (fold deliver batch w) = context w"
  "contextless (fold deliver batch w) = contextless w"
  "stdout (fold deliver batch w) = stdout w"
  "exit_status (fold deliver batch w) = exit_status w"
  "key_callback_installed (fold deliver batch w) = key_callback_installed w"
  by (induction batch arbitrary: w; simp add: deliver_frame)+

lemma fold_deliver_keeps_close:
  "should_close w \<Longrightarrow> should_close (fold deliver batch w)"
  by (induction batch arbitrary: w) (simp_all add: deliver_keeps_close)

lemma fold_deliver_close_request:
  "CloseRequested \<in> set batch \<Longrightarrow> should_close (fold deliver batch w)"
  by (induction batch arbitrary: w) (auto simp: fold_deliver_keeps_close)

lemma fold_deliver_escape:
  "key_callback_installed w \<Longrightarrow>
   Key GLFW_KEY_ESCAPE scancode GLFW_PRESS mods \<in> set batch \<Longrightarrow>
   should_close (fold deliver batch w)"
  by (induction batch arbitrary: w)
     (auto simp: fold_deliver_keeps_close key_callback_eq deliver_frame)

lemma glfwPollEvents_frame:
  "calls (glfwPollEvents batch w) = calls w @ [GlfwPollEvents]"
  "context (glfwPollEvents batch w) = context w"
  "contextless (glfwPollEvents batch w) = contextless w"
  "stdout (glfwPollEvents batch w) = stdout w"
  "exit_status (glfwPollEvents batch w) = exit_status w"
  "key_callback_installed (glfwPollEvents batch w) = key_callback_installed w"
  by (simp_all add: glfwPollEvents_def fold_deliver_frame log_call_simps)

lemma glfwPollEvents_close:
  "should_close w \<Longrightarrow> should_close (glfwPollEvents batch w)"
  "CloseRequested \<in> set batch \<Longrightarrow> should_close (glfwPollEvents batch w)"
  "key_callback_installed w \<Longrightarrow>
   Key GLFW_KEY_ESCAPE scancode GLFW_PRESS mods \<in> set batch \<Longrightarrow>
   should_close (glfwPollEvents batch w)"
  by (simp_all add: glfwPollEvents_def fold_deliver_keeps_close fold_deliver_close_request
      fold_deliver_escape log_call_simps)

lemma glfw_query_simps:
  "fst (glfwWindowShouldClose w) = should_close w"
  "snd (glfwWindowShouldClose w) = log_call (GlfwWindowShouldClose (should_close w)) w"
  "fst (glfwGetFramebufferSize w) = framebuffer_size w"
  "snd (glfwGetFramebufferSize w) =
     log_call (GlfwGetFramebufferSize (fst (framebuffer_size w)) (snd (framebuffer_size w))) w"
  by (simp_all add: glfwWindowShouldClose_def glfwGetFramebufferSize_def)

lemmas loop_body_simps = loop_body_def Let_def split_def glfw_query_simps glfwSwapBuffers_def
  log_call_simps command_frame glfwPollEvents_frame

lemma loop_body_calls:
  "calls (loop_body shader_program vao batch w) = calls w @
     [GlfwGetFramebufferSize (fst (framebuffer_size w)) (snd (framebuffer_size w)),
      GlViewport 0 0 (fst (framebuffer_size w)) (snd (framebuffer_size w)),
      GlClear {GL_COLOR_BUFFER_BIT},
      GlUseProgram shader_program,
      GlBindVertexArray vao,
      GlDrawElements GL_TRIANGLES 6 GL_UNSIGNED_INT 0,
      GlfwSwapBuffers,
      GlfwPollEvents]"
  by (simp add: loop_body_simps)

lemma loop_body_frame:
  "stdout (loop_body shader_program vao batch w) = stdout w"
  "exit_status (loop_body shader_program vao batch w) = exit_status w"
  "key_callback_installed (loop_body shader_program vao batch w) = key_callback_installed w"
  "(context (loop_body shader_program vao batch w) = None) = (context w = None)"
  "contextless (loop_body shader_program vao batch w) =
     (if context w = None
      then contextless w @
        [GlViewport 0 0 (fst (framebuffer_size w)) (snd (framebuffer_size w)),
         GlClear {GL_COLOR_BUFFER_BIT}, GlUseProgram shader_program, GlBindVertexArray vao,
         GlDrawElements GL_TRIANGLES 6 GL_UNSIGNED_INT 0]
      else contextless w)"
  by (simp_all add: loop_body_simps)

lemma loop_body_close:
  "CloseRequested \<in> set batch \<Longrightarrow> should_close (loop_body shader_program vao batch w)"
  "key_callback_installed w \<Longrightarrow>
   Key GLFW_KEY_ESCAPE scancode GLFW_PRESS mods \<in> set batch \<Longrightarrow>
   should_close (loop_body shader_program vao batch w)"
  by (simp_all add: loop_body_def Let_def split_def glfwPollEvents_close glfw_query_simps
      glfwSwapBuffers_def log_call_simps command_frame)


lemma fold_deliver_should_close:
  "should_close (fold deliver batch w) =
     (should_close w \<or> CloseRequested \<in> set batch \<or>
      key_callback_installed w \<and>
      (\<exists>scancode mods. Key GLFW_KEY_ESCAPE scancode GLFW_PRESS mods \<in> set batch))"
proof (induction batch arbitrary: w)
  case Nil
  show ?case
    by simp
next
  case (Cons e batch)
  show ?case
    by (cases e) (auto simp: Cons.IH key_callback_eq)
qed

lemma fold_deliver_framebuffer_size:
  "framebuffer_size (fold deliver batch w) =
     fold (\<lambda>e s. case e of FramebufferResized width height \<Rightarrow> (width, height) | _ \<Rightarrow> s)
       batch (framebuffer_size w)"
proof (induction batch arbitrary: w)
  case Nil
  show ?case
    by simp
next
  case (Cons e batch)
  show ?case
    by (cases e) (simp_all add: Cons.IH key_callback_eq)
qed

lemma loop_body_should_close:
  "should_close (loop_body shader_program vao batch w) =
     (should_close w \<or> CloseRequested \<in> set batch \<or>
      key_callback_installed w \<and>
      (\<exists>scancode mods. Key GLFW_KEY_ESCAPE scancode GLFW_PRESS mods \<in> set batch))"
  by (simp add: loop_body_def Let_def split_def glfwPollEvents_def fold_deliver_should_close
      glfw_query_simps glfwSwapBuffers_def log_call_simps command_frame)

lemma loop_body_framebuffer_size:
  "framebuffer_size (loop_body shader_program vao batch w) =
     fold (\<lambda>e s. case e of FramebufferResized width height \<Rightarrow> (width, height) | _ \<Rightarrow> s)
       batch (framebuffer_size w)"
  by (simp add: loop_body_def Let_def split_def glfwPollEvents_def
      fold_deliver_framebuffer_size glfw_query_simps glfwSwapBuffers_def log_call_simps
      command_frame)

lemma main_window_simps:
  "should_close (main_window pf) = False"
  "key_callback_installed (main_window pf) = True"
  "framebuffer_size (main_window pf) = framebuffer_of pf 640 480"
  "calls (main_window pf) =
     [InitializeGlfwGladAndReturnWindow 640 480 ''glfw window'' False False False]"
  "stdout (main_window pf) = []"
  "exit_status (main_window pf) = None"
  "contextless (main_window pf) = []"
  by (simp_all add: main_window_def initialize_glfw_glad_and_return_window_def log_call_def
      process_start_def SCREEN_WIDTH_def SCREEN_HEIGHT_def)

lemmas run_loop = render_loop.simps Let_def split_def glfw_query_simps log_call_simps
  loop_body_should_close loop_body_framebuffer_size loop_body_frame loop_body_calls

lemma render_loop_frame:
  "render_loop shader_program vao script w = Some w' \<Longrightarrow>
   should_close w' \<and> stdout w' = stdout w \<and> exit_status w' = exit_status w \<and>
   (context w' = None) = (context w = None) \<and>
   (context w \<noteq> None \<longrightarrow> contextless w' = contextless w)"
proof (induction script arbitrary: w)
  case Nil
  then show ?case
    by (auto simp: Let_def split_def glfw_query_simps log_call_simps split: if_splits)
next
  case (Cons batch rest)
  show ?case
  proof (cases "should_close w")
    case True
    with Cons.prems show ?thesis
      by (auto simp: Let_def split_def glfw_query_simps log_call_simps)
  next
    case False
    let ?v = "loop_body shader_program vao batch (snd (glfwWindowShouldClose w))"
    from False Cons.prems have "render_loop shader_program vao rest ?v = Some w'"
      by (simp add: Let_def split_def glfw_query_simps)
    from Cons.IH [OF this] show ?thesis
      by (simp add: loop_body_frame glfw_query_simps log_call_simps)
  qed
qed

lemma render_loop_returns:
  "key_callback_installed w \<Longrightarrow>
   \<exists>batch \<in> set script.
     CloseRequested \<in> set batch \<or>
     (\<exists>scancode mods. Key GLFW_KEY_ESCAPE scancode GLFW_PRESS mods \<in> set batch) \<Longrightarrow>
   \<exists>w'. render_loop shader_program vao script w = Some w'"
proof (induction script arbitrary: w)
  case Nil
  then show ?case
    by simp
next
  case (Cons batch rest)
  let ?u = "snd (glfwWindowShouldClose w)"
  let ?v = "loop_body shader_program vao batch ?u"
  have k: "key_callback_installed ?u" "key_callback_installed ?v"
    using Cons.prems(1) by (simp_all add: loop_body_frame glfw_query_simps log_call_simps)
  show ?case
  proof (cases "should_close w")
    case True
    then show ?thesis
      by (simp add: Let_def split_def glfw_query_simps)
  next
    case False
    then have step: "render_loop shader_program vao (batch # rest) w =
        render_loop shader_program vao rest ?v"
      by (simp add: Let_def split_def glfw_query_simps)
    show ?thesis
    proof (cases "CloseRequested \<in> set batch \<or>
        (\<exists>scancode mods. Key GLFW_KEY_ESCAPE scancode GLFW_PRESS mods \<in> set batch)")
      case True
      then have "should_close ?v"
        using k(1) by (auto simp: loop_body_close)
      then have "render_loop shader_program vao rest ?v = Some (snd (glfwWindowShouldClose ?v))"
        by (cases rest) (simp_all add: Let_def split_def glfw_query_simps)
      with step show ?thesis
        by simp
    next
      case no: False
      with Cons.prems(2) have "\<exists>batch \<in> set rest.
          CloseRequested \<in> set batch \<or>
          (\<exists>scancode mods. Key GLFW_KEY_ESCAPE scancode GLFW_PRESS mods \<in> set batch)"
        by auto
      from Cons.IH [OF k(2) this] step show ?thesis
        by simp
    qed
  qed
qed

lemma render_loop_calls:
  assumes "render_loop shader_program vao script w = Some w'"
  shows "\<exists>sizes. length sizes \<le> length script \<and>
       calls w' = calls w @
         concat (map (\<lambda>(width, height).
           [GlfwWindowShouldClose False,
            GlfwGetFramebufferSize width height,
            GlViewport 0 0 width height,
            GlClear {GL_COLOR_BUFFER_BIT},
            GlUseProgram shader_program,
            GlBindVertexArray vao,
            GlDrawElements GL_TRIANGLES 6 GL_UNSIGNED_INT 0,
            GlfwSwapBuffers,
            GlfwPollEvents]) sizes) @
         [GlfwWindowShouldClose True]"
proof -
  let ?frame = "\<lambda>(width, height).
           [GlfwWindowShouldClose False,
            GlfwGetFramebufferSize width height,
            GlViewport 0 0 width height,
            GlClear {GL_COLOR_BUFFER_BIT},
            GlUseProgram shader_program,
            GlBindVertexArray vao,
            GlDrawElements GL_TRIANGLES 6 GL_UNSIGNED_INT 0,
            GlfwSwapBuffers,
            GlfwPollEvents]"
  from assms show "\<exists>sizes. length sizes \<le> length script \<and>
      calls w' = calls w @ concat (map ?frame sizes) @ [GlfwWindowShouldClose True]"
  proof (induction script arbitrary: w)
    case Nil
    then have "calls w' = calls w @ concat (map ?frame []) @ [GlfwWindowShouldClose True]"
      by (auto simp: Let_def split_def glfw_query_simps log_call_simps split: if_splits)
    then show ?case
      by (intro exI [of _ "[]"]) simp
  next
    case (Cons batch rest)
    show ?case
    proof (cases "should_close w")
      case True
      with Cons.prems
      have "calls w' = calls w @ concat (map ?frame []) @ [GlfwWindowShouldClose True]"
        by (auto simp: Let_def split_def glfw_query_simps log_call_simps)
      then show ?thesis
        by (intro exI [of _ "[]"]) simp
    next
      case False
      let ?u = "snd (glfwWindowShouldClose w)"
      let ?v = "loop_body shader_program vao batch ?u"
      from False Cons.prems have "render_loop shader_program vao rest ?v = Some w'"
        by (simp add: Let_def split_def glfw_query_simps)
      from Cons.IH [OF this] obtain sizes where
        n: "length sizes \<le> length rest" and
        c: "calls w' = calls ?v @ concat (map ?frame sizes) @ [GlfwWindowShouldClose True]"
        by blast
      have "calls ?v = calls w @ ?frame (framebuffer_size w)"
        using False
        by (simp add: loop_body_calls glfw_query_simps log_call_simps split_def)
      with c have "calls w' = calls w @
          concat (map ?frame (framebuffer_size w # sizes)) @ [GlfwWindowShouldClose True]"
        by simp
      with n show ?thesis
        by (intro exI [of _ "framebuffer_size w # sizes"]) simp
    qed
  qed
qed

text \<open>
  Claim C4. Every iteration of the render loop (\<open>loop_body\<close>) issues, after the check
  of the close flag that lets it run, these eight calls in this order: the query of the
  framebuffer size, the viewport set to the size just answered, a clear of the colour
  buffer and of no other buffer, the use of the shader program, the binding of the
  vertex array object, one draw of 6 indices as triangles with unsigned 4-byte indices
  from offset 0, the buffer swap, and the event poll. The log of a loop that exits is a
  sequence of such iterations followed by the check that ends it.
\<close>

theorem render_loop_iterations:
  "index_size GL_UNSIGNED_INT = 4 \<and>
   calls (loop_body shader_program vao batch v) = calls v @
     [GlfwGetFramebufferSize (fst (framebuffer_size v)) (snd (framebuffer_size v)),
      GlViewport 0 0 (fst (framebuffer_size v)) (snd (framebuffer_size v)),
      GlClear {GL_COLOR_BUFFER_BIT},
      GlUseProgram shader_program,
      GlBindVertexArray vao,
      GlDrawElements GL_TRIANGLES 6 GL_UNSIGNED_INT 0,
      GlfwSwapBuffers,
      GlfwPollEvents] \<and>
   (render_loop shader_program vao script w = Some w' \<longrightarrow>
    (\<exists>sizes. length sizes \<le> length script \<and>
       calls w' = calls w @
         concat (map (\<lambda>(width, height).
           [GlfwWindowShouldClose False,
            GlfwGetFramebufferSize width height,
            GlViewport 0 0 width height,
            GlClear {GL_COLOR_BUFFER_BIT},
            GlUseProgram shader_program,
            GlBindVertexArray vao,
            GlDrawElements GL_TRIANGLES 6 GL_UNSIGNED_INT 0,
            GlfwSwapBuffers,
            GlfwPollEvents]) sizes) @
         [GlfwWindowShouldClose True]))"
  using render_loop_calls [of shader_program vao script w w']
    loop_body_calls [of shader_program vao batch v]
  by simp

theorem render_loop_iterations_witness:
  "\<exists>w'. render_loop 3 1 [[FramebufferResized 800 600], [CloseRequested], []]
           (main_window conformant_platform) = Some w' \<and>
     (\<exists>sizes. length sizes \<le> length [[FramebufferResized 800 600], [CloseRequested], []] \<and>
         calls w' = calls (main_window conformant_platform) @
           concat (map (\<lambda>(width, height).
             [GlfwWindowShouldClose False,
              GlfwGetFramebufferSize width height,
              GlViewport 0 0 width height,
              GlClear {GL_COLOR_BUFFER_BIT},
              GlUseProgram 3,
              GlBindVertexArray 1,
              GlDrawElements GL_TRIANGLES 6 GL_UNSIGNED_INT 0,
              GlfwSwapBuffers,
              GlfwPollEvents]) sizes) @
           [GlfwWindowShouldClose True]) \<and>
     calls w' =
       [InitializeGlfwGladAndReturnWindow 640 480 ''glfw window'' False False False,
        GlfwWindowShouldClose False, GlfwGetFramebufferSize 640 480,
        GlViewport 0 0 640 480, GlClear {GL_COLOR_BUFFER_BIT},
        GlUseProgram 3, GlBindVertexArray 1,
        GlDrawElements GL_TRIANGLES 6 GL_UNSIGNED_INT 0, GlfwSwapBuffers,
        GlfwPollEvents,
        GlfwWindowShouldClose False, GlfwGetFramebufferSize 800 600,
        GlViewport 0 0 800 600, GlClear {GL_COLOR_BUFFER_BIT},
        GlUseProgram 3, GlBindVertexArray 1,
        GlDrawElements GL_TRIANGLES 6 GL_UNSIGNED_INT 0, GlfwSwapBuffers,
        GlfwPollEvents,
        GlfwWindowShouldClose True]"
proof -
  let ?m = "main_window conformant_platform"
  let ?w = "snd (glfwWindowShouldClose
    (loop_body 3 1 [CloseRequested] (snd (glfwWindowShouldClose
      (loop_body 3 1 [FramebufferResized 800 600] (snd (glfwWindowShouldClose ?m)))))))"
  have r: "render_loop 3 1 [[FramebufferResized 800 600], [CloseRequested], []] ?m = Some ?w"
    by (simp add: run_loop main_window_simps)
  have k: "calls ?w =
       [InitializeGlfwGladAndReturnWindow 640 480 ''glfw window'' False False False,
        GlfwWindowShouldClose False, GlfwGetFramebufferSize 640 480,
        GlViewport 0 0 640 480, GlClear {GL_COLOR_BUFFER_BIT},
        GlUseProgram 3, GlBindVertexArray 1,
        GlDrawElements GL_TRIANGLES 6 GL_UNSIGNED_INT 0, GlfwSwapBuffers,
        GlfwPollEvents,
        GlfwWindowShouldClose False, GlfwGetFramebufferSize 800 600,
        GlViewport 0 0 800 600, GlClear {GL_COLOR_BUFFER_BIT},
        GlUseProgram 3, GlBindVertexArray 1,
        GlDrawElements GL_TRIANGLES 6 GL_UNSIGNED_INT 0, GlfwSwapBuffers,
        GlfwPollEvents,
        GlfwWindowShouldClose True]"
    by (simp add: run_loop main_window_simps conformant_platform_def)
  note t = render_loop_iterations
    [where script = "[[FramebufferResized 800 600], [CloseRequested], []]",
     THEN conjunct2, THEN conjunct2, THEN mp, OF r]
  show ?thesis
    by (rule exI [of _ ?w]) (rule conjI [OF r conjI [OF t k]])
qed

text \<open>
  Claim C7. A press of Escape that reaches \<open>key_callback\<close> sets the close flag; the
  iteration whose poll delivered it is the last one, since the loop's next check of the
  flag ends the loop, whatever events would have followed; and \<open>key_callback\<close> does
  nothing for any other key.
\<close>

theorem escape_press_ends_loop:
  assumes "key_callback_installed w" and "\<not> should_close w"
    and "Key GLFW_KEY_ESCAPE scancode GLFW_PRESS mods \<in> set batch"
  shows "should_close (key_callback GLFW_KEY_ESCAPE scancode GLFW_PRESS mods w) \<and>
    (\<exists>w'. render_loop shader_program vao (batch # rest) w = Some w' \<and> should_close w' \<and>
       calls w' = calls w @
         [GlfwWindowShouldClose False,
          GlfwGetFramebufferSize (fst (framebuffer_size w)) (snd (framebuffer_size w)),
          GlViewport 0 0 (fst (framebuffer_size w)) (snd (framebuffer_size w)),
          GlClear {GL_COLOR_BUFFER_BIT},
          GlUseProgram shader_program,
          GlBindVertexArray vao,
          GlDrawElements GL_TRIANGLES 6 GL_UNSIGNED_INT 0,
          GlfwSwapBuffers,
          GlfwPollEvents,
          GlfwWindowShouldClose True]) \<and>
    (\<forall>key sc action m v. key \<noteq> GLFW_KEY_ESCAPE \<longrightarrow> key_callback key sc action m v = v)"
proof -
  let ?u = "snd (glfwWindowShouldClose w)"
  let ?v = "loop_body shader_program vao batch ?u"
  have "should_close ?v"
    using assms(1,3) by (auto simp: loop_body_should_close glfw_query_simps log_call_simps)
  then have "render_loop shader_program vao rest ?v = Some (snd (glfwWindowShouldClose ?v))"
    by (cases rest) (simp_all add: Let_def split_def glfw_query_simps)
  with assms(2) have "render_loop shader_program vao (batch # rest) w =
      Some (snd (glfwWindowShouldClose ?v))"
    by (simp add: Let_def split_def glfw_query_simps)
  moreover have "should_close (snd (glfwWindowShouldClose ?v))"
    using \<open>should_close ?v\<close> by (simp add: glfw_query_simps log_call_simps)
  moreover have "calls (snd (glfwWindowShouldClose ?v)) = calls w @
         [GlfwWindowShouldClose False,
          GlfwGetFramebufferSize (fst (framebuffer_size w)) (snd (framebuffer_size w)),
          GlViewport 0 0 (fst (framebuffer_size w)) (snd (framebuffer_size w)),
          GlClear {GL_COLOR_BUFFER_BIT},
          GlUseProgram shader_program,
          GlBindVertexArray vao,
          GlDrawElements GL_TRIANGLES 6 GL_UNSIGNED_INT 0,
          GlfwSwapBuffers,
          GlfwPollEvents,
          GlfwWindowShouldClose True]"
    using assms(2) \<open>should_close ?v\<close>
    by (simp add: glfw_query_simps log_call_simps loop_body_calls)
  ultimately show ?thesis
    by (simp add: key_callback_eq)
qed

theorem escape_press_ends_loop_witness:
  "key_callback_installed (main_window conformant_platform) \<and>
   \<not> should_close (main_window conformant_platform) \<and>
   Key GLFW_KEY_ESCAPE 9 GLFW_PRESS 0 \<in> set [Key 65 38 GLFW_PRESS 0, Key GLFW_KEY_ESCAPE 9 GLFW_PRESS 0] \<and>
   should_close (key_callback GLFW_KEY_ESCAPE 9 GLFW_PRESS 0 (main_window conformant_platform)) \<and>
   (\<exists>w'. render_loop 3 1
            ([Key 65 38 GLFW_PRESS 0, Key GLFW_KEY_ESCAPE 9 GLFW_PRESS 0] # [[], []])
            (main_window conformant_platform) = Some w' \<and> should_close w' \<and>
      length (calls w') = length (calls (main_window conformant_platform)) + 10) \<and>
   key_callback 65 38 GLFW_PRESS 0 (main_window conformant_platform) =
     main_window conformant_platform"
proof -
  have a: "key_callback_installed (main_window conformant_platform)"
    and b: "\<not> should_close (main_window conformant_platform)"
    and c: "Key GLFW_KEY_ESCAPE 9 GLFW_PRESS 0 \<in>
      set [Key 65 38 GLFW_PRESS 0, Key GLFW_KEY_ESCAPE 9 GLFW_PRESS 0]"
    by (simp_all add: main_window_simps)
  have d: "(65::int) \<noteq> GLFW_KEY_ESCAPE"
    by (simp add: GLFW_KEY_ESCAPE_def)
  note t = escape_press_ends_loop [OF a b c, of 3 1 "[[], []]"]
  from t have e: "should_close (key_callback GLFW_KEY_ESCAPE 9 GLFW_PRESS 0
      (main_window conformant_platform))"
    by (rule conjunct1)
  from t obtain w' where f: "render_loop 3 1
      ([Key 65 38 GLFW_PRESS 0, Key GLFW_KEY_ESCAPE 9 GLFW_PRESS 0] # [[], []])
      (main_window conformant_platform) = Some w'" "should_close w'"
    "length (calls w') = length (calls (main_window conformant_platform)) + 10"
    by auto
  from t have "\<forall>key sc action m v. key \<noteq> GLFW_KEY_ESCAPE \<longrightarrow>
      key_callback key sc action m v = v"
    by (rule conjunct2 [THEN conjunct2])
  with d have g: "key_callback 65 38 GLFW_PRESS 0 (main_window conformant_platform) =
      main_window conformant_platform"
    by blast
  from a b c e f g show ?thesis
    by blast
qed



text \<open>
  Claim C10. For every key event given to \<open>key_callback\<close>: if the key is Escape and the
  action is a press, the close flag of the window is set and nothing else changes;
  otherwise nothing changes at all. So a call of the callback turns the flag on exactly
  when the event is a press of Escape, and a release or a repeat of Escape leaves the
  state as it is.
\<close>

theorem key_callback_effect:
  "(key = GLFW_KEY_ESCAPE \<and> action = GLFW_PRESS \<longrightarrow>
      key_callback key scancode action mods w = w\<lparr>should_close := True\<rparr>) \<and>
   (\<not> (key = GLFW_KEY_ESCAPE \<and> action = GLFW_PRESS) \<longrightarrow>
      key_callback key scancode action mods w = w) \<and>
   (\<not> should_close w \<longrightarrow>
      should_close (key_callback key scancode action mods w) =
        (key = GLFW_KEY_ESCAPE \<and> action = GLFW_PRESS)) \<and>
   key_callback GLFW_KEY_ESCAPE scancode GLFW_RELEASE mods w = w \<and>
   key_callback GLFW_KEY_ESCAPE scancode GLFW_REPEAT mods w = w"
proof -
  have "GLFW_RELEASE \<noteq> GLFW_PRESS" "GLFW_REPEAT \<noteq> GLFW_PRESS"
    by (simp_all add: GLFW_PRESS_def GLFW_RELEASE_def GLFW_REPEAT_def)
  then show ?thesis
    by (simp add: key_callback_eq)
qed

theorem key_callback_effect_witness:
  "key_callback GLFW_KEY_ESCAPE 9 GLFW_PRESS 0 process_start =
     process_start\<lparr>should_close := True\<rparr> \<and>
   \<not> should_close process_start \<and>
   should_close (key_callback GLFW_KEY_ESCAPE 9 GLFW_PRESS 0 process_start) \<and>
   key_callback GLFW_KEY_ESCAPE 9 GLFW_RELEASE 0 process_start = process_start \<and>
   key_callback 65 38 GLFW_PRESS 0 process_start = process_start"
proof -
  have n: "(65::int) \<noteq> GLFW_KEY_ESCAPE" "\<not> should_close process_start"
    by (simp_all add: GLFW_KEY_ESCAPE_def process_start_def)
  note a = key_callback_effect [of GLFW_KEY_ESCAPE GLFW_PRESS 9 0 process_start]
  note b = key_callback_effect [of 65 GLFW_PRESS 38 0 process_start]
  from a have 1: "key_callback GLFW_KEY_ESCAPE 9 GLFW_PRESS 0 process_start =
      process_start\<lparr>should_close := True\<rparr>"
    by simp
  from a n(2) have 2: "should_close (key_callback GLFW_KEY_ESCAPE 9 GLFW_PRESS 0 process_start)"
    by simp
  from a have 3: "key_callback GLFW_KEY_ESCAPE 9 GLFW_RELEASE 0 process_start = process_start"
    by simp
  from b n(1) have 4: "key_callback 65 38 GLFW_PRESS 0 process_start = process_start"
    by simp
  from 1 n(2) 2 3 4 show ?thesis
    by (intro conjI)
qed

subsection \<open>Compile and link failures\<close>

lemma create_shader_program_result:
  "create_shader_program pf w = (shader_program, w') \<Longrightarrow>
   shader_program = fst (create_shader_program pf w) \<and>
   w' = snd (create_shader_program pf w)"
  by simp

lemma rejecting_platform_simps:
  "glsl_compile rejecting_platform type text =
     (if type = GL_VERTEX_SHADER then (False, replicate 600 (CHR ''x'')) else (True, []))"
  "glsl_link rejecting_platform attached =
     (if list_all (\<lambda>(type, text, ok). ok) attached then (True, [])
      else (False, ''error: linking with uncompiled shader''))"
  "framebuffer_of rejecting_platform width height = (int width, int height)"
  by (simp_all add: rejecting_platform_def)

lemma conformant_platform_simps:
  "glsl_compile conformant_platform type text = (True, [])"
  "glsl_link conformant_platform attached = (list_all (\<lambda>(type, text, ok). ok) attached, [])"
  "framebuffer_of conformant_platform width height = (int width, int height)"
  by (simp_all add: conformant_platform_def)

text \<open>
  Claim C5. If the vertex shader fails to compile, the program retrieves the log with a
  buffer size of 512, so at most 511 characters of it, and writes it to standard output
  after the line \<open>ERROR::SHADER::VERTEX::COMPILATION_FAILED\<close>. It then goes on as it would
  have otherwise: it creates and compiles the fragment shader, creates the program
  object, attaches both shaders, links, and returns the name of the program object,
  which is not zero. The process has not exited.
\<close>

theorem vertex_compile_failure_is_reported_and_ignored:
  assumes "context w = Some g"
    and "\<not> fst (vertex_result pf)"
    and "create_shader_program pf w = (shader_program, w')"
  shows "\<exists>vertex_shader fragment_shader infoLog.
    infoLog = take 511 (snd (vertex_result pf)) \<and> length infoLog < 512 \<and>
    calls w' = calls w @
      [GlCreateShader GL_VERTEX_SHADER vertex_shader,
       GlShaderSource vertex_shader vertex_shader_text,
       GlCompileShader vertex_shader,
       GlGetShaderiv_COMPILE_STATUS vertex_shader False,
       GlGetShaderInfoLog vertex_shader 512 infoLog,
       GlCreateShader GL_FRAGMENT_SHADER fragment_shader,
       GlShaderSource fragment_shader fragment_shader_text,
       GlCompileShader fragment_shader,
       GlGetShaderiv_COMPILE_STATUS fragment_shader (fst (fragment_result pf))] @
      (if fst (fragment_result pf) then []
       else [GlGetShaderInfoLog fragment_shader 512 (take 511 (snd (fragment_result pf)))]) @
      [GlCreateProgram shader_program,
       GlAttachShader shader_program vertex_shader,
       GlAttachShader shader_program fragment_shader,
       GlLinkProgram shader_program,
       GlGetProgramiv_LINK_STATUS shader_program (fst (link_result pf))] @
      (if fst (link_result pf) then []
       else [GlGetProgramInfoLog shader_program 512 (take 511 (snd (link_result pf)))]) @
      [GlDeleteShader vertex_shader, GlDeleteShader fragment_shader] \<and>
    (\<exists>rest. stdout w' = stdout w @
       ''ERROR::SHADER::VERTEX::COMPILATION_FAILED'' @ [CHR 0x0A] @ infoLog @ [CHR 0x0A] @
       rest) \<and>
    shader_program \<noteq> 0 \<and>
    (\<exists>g'. context w' = Some g' \<and>
       shaders g' fragment_shader =
         Some \<lparr>sh_type = GL_FRAGMENT_SHADER, sh_source = fragment_shader_text,
               sh_compiled = fst (fragment_result pf), sh_log = snd (fragment_result pf),
               sh_attachments = 1, sh_delete_flag = True\<rparr> \<and>
       programs g' shader_program =
         Some \<lparr>pr_shaders = [vertex_shader, fragment_shader],
               pr_linked = fst (link_result pf), pr_log = snd (link_result pf)\<rparr>) \<and>
    exit_status w' = exit_status w"
proof -
  note r = create_shader_program_result [OF assms(3)]
  let ?V = "fresh (last_shader_or_program g)"
  let ?F = "fresh ?V"
  have name: "shader_program = fresh ?F"
    using create_shader_program_run(7) [OF assms(1), of pf] r by simp
  have log: "calls w' = calls w @
      [GlCreateShader GL_VERTEX_SHADER ?V,
       GlShaderSource ?V vertex_shader_text,
       GlCompileShader ?V,
       GlGetShaderiv_COMPILE_STATUS ?V False,
       GlGetShaderInfoLog ?V 512 (take 511 (snd (vertex_result pf))),
       GlCreateShader GL_FRAGMENT_SHADER ?F,
       GlShaderSource ?F fragment_shader_text,
       GlCompileShader ?F,
       GlGetShaderiv_COMPILE_STATUS ?F (fst (fragment_result pf))] @
      (if fst (fragment_result pf) then []
       else [GlGetShaderInfoLog ?F 512 (take 511 (snd (fragment_result pf)))]) @
      [GlCreateProgram shader_program,
       GlAttachShader shader_program ?V,
       GlAttachShader shader_program ?F,
       GlLinkProgram shader_program,
       GlGetProgramiv_LINK_STATUS shader_program (fst (link_result pf))] @
      (if fst (link_result pf) then []
       else [GlGetProgramInfoLog shader_program 512 (take 511 (snd (link_result pf)))]) @
      [GlDeleteShader ?V, GlDeleteShader ?F]"
    using create_shader_program_run(8) [OF assms(1), of pf] assms(2) r name by simp
  have out: "\<exists>rest. stdout w' = stdout w @
       ''ERROR::SHADER::VERTEX::COMPILATION_FAILED'' @ [CHR 0x0A] @
       take 511 (snd (vertex_result pf)) @ [CHR 0x0A] @ rest"
    using create_shader_program_run(9) [OF assms(1), of pf] assms(2) r by simp
  have obj: "\<exists>g'. context w' = Some g' \<and>
       shaders g' ?F =
         Some \<lparr>sh_type = GL_FRAGMENT_SHADER, sh_source = fragment_shader_text,
               sh_compiled = fst (fragment_result pf), sh_log = snd (fragment_result pf),
               sh_attachments = 1, sh_delete_flag = True\<rparr> \<and>
       programs g' shader_program =
         Some \<lparr>pr_shaders = [?V, ?F],
               pr_linked = fst (link_result pf), pr_log = snd (link_result pf)\<rparr>"
    using create_shader_program_run(10) [OF assms(1), of pf] r name by auto
  have nz: "shader_program \<noteq> 0"
    by (simp add: name fresh_nonzero)
  have ex: "exit_status w' = exit_status w"
    using create_shader_program_run(1) [of pf w] r by simp
  have len: "length (take 511 (snd (vertex_result pf))) < 512"
    by simp
  show ?thesis
    by (rule exI [of _ ?V], rule exI [of _ ?F],
        rule exI [of _ "take 511 (snd (vertex_result pf))"])
       (intro conjI refl len log out nz obj ex)
qed


theorem vertex_compile_failure_is_reported_and_ignored_witness:
  "context (main_window rejecting_platform) = Some new_context \<and>
   \<not> fst (vertex_result rejecting_platform) \<and>
   fst (create_shader_program rejecting_platform (main_window rejecting_platform)) \<noteq> 0 \<and>
   (\<exists>rest. stdout (snd (create_shader_program rejecting_platform
                           (main_window rejecting_platform))) =
      ''ERROR::SHADER::VERTEX::COMPILATION_FAILED'' @ [CHR 0x0A] @
      replicate 511 (CHR ''x'') @ [CHR 0x0A] @ rest) \<and>
   exit_status (snd (create_shader_program rejecting_platform
                       (main_window rejecting_platform))) = None"
proof -
  have v: "\<not> fst (vertex_result rejecting_platform)"
    by (simp add: rejecting_platform_simps)
  note t = vertex_compile_failure_is_reported_and_ignored
    [OF main_window_context [of rejecting_platform] v prod.collapse [symmetric]]
  from t show ?thesis
    by (elim exE conjE)
       (simp add: rejecting_platform_simps main_window_simps main_window_context)
qed

text \<open>
  Claim C6. What building the shader program writes to standard output is, for each of
  the three stages whose status flag is false and for no other, the line that names the
  stage (\<open>ERROR::SHADER::VERTEX::COMPILATION_FAILED\<close>,
  \<open>ERROR::SHADER::FRAGMENT::COMPILATION_FAILED\<close>,
  \<open>ERROR::SHADER::PROGRAM::LINKING_FAILED\<close>) followed by the retrieved log and a newline,
  in the order vertex, fragment, link. Nothing is written exactly when the three flags
  are true. The flags are the ones the program reads with its three status queries.
\<close>

theorem diagnostics_written_exactly_on_failure:
  assumes "context w = Some g"
    and "create_shader_program pf w = (shader_program, w')"
  shows "stdout w' = stdout w @
      (if fst (vertex_result pf) then []
       else ''ERROR::SHADER::VERTEX::COMPILATION_FAILED'' @ [CHR 0x0A] @
            take 511 (snd (vertex_result pf)) @ [CHR 0x0A]) @
      (if fst (fragment_result pf) then []
       else ''ERROR::SHADER::FRAGMENT::COMPILATION_FAILED'' @ [CHR 0x0A] @
            take 511 (snd (fragment_result pf)) @ [CHR 0x0A]) @
      (if fst (link_result pf) then []
       else ''ERROR::SHADER::PROGRAM::LINKING_FAILED'' @ [CHR 0x0A] @
            take 511 (snd (link_result pf)) @ [CHR 0x0A]) \<and>
    (stdout w' = stdout w) =
      (fst (vertex_result pf) \<and> fst (fragment_result pf) \<and> fst (link_result pf)) \<and>
    (\<exists>vertex_shader fragment_shader.
       GlGetShaderiv_COMPILE_STATUS vertex_shader (fst (vertex_result pf))
         \<in> set (drop (length (calls w)) (calls w')) \<and>
       GlGetShaderiv_COMPILE_STATUS fragment_shader (fst (fragment_result pf))
         \<in> set (drop (length (calls w)) (calls w')) \<and>
       GlGetProgramiv_LINK_STATUS shader_program (fst (link_result pf))
         \<in> set (drop (length (calls w)) (calls w')))"
proof -
  note r = create_shader_program_result [OF assms(2)]
  have out: "stdout w' = stdout w @
      (if fst (vertex_result pf) then []
       else ''ERROR::SHADER::VERTEX::COMPILATION_FAILED'' @ [CHR 0x0A] @
            take 511 (snd (vertex_result pf)) @ [CHR 0x0A]) @
      (if fst (fragment_result pf) then []
       else ''ERROR::SHADER::FRAGMENT::COMPILATION_FAILED'' @ [CHR 0x0A] @
            take 511 (snd (fragment_result pf)) @ [CHR 0x0A]) @
      (if fst (link_result pf) then []
       else ''ERROR::SHADER::PROGRAM::LINKING_FAILED'' @ [CHR 0x0A] @
            take 511 (snd (link_result pf)) @ [CHR 0x0A])"
    using create_shader_program_run(9) [OF assms(1), of pf] r by simp
  have iff: "(stdout w' = stdout w) =
      (fst (vertex_result pf) \<and> fst (fragment_result pf) \<and> fst (link_result pf))"
    unfolding out by simp
  have name: "shader_program = fresh (fresh (fresh (last_shader_or_program g)))"
    using create_shader_program_run(7) [OF assms(1), of pf] r by simp
  have queries: "\<exists>vertex_shader fragment_shader.
       GlGetShaderiv_COMPILE_STATUS vertex_shader (fst (vertex_result pf))
         \<in> set (drop (length (calls w)) (calls w')) \<and>
       GlGetShaderiv_COMPILE_STATUS fragment_shader (fst (fragment_result pf))
         \<in> set (drop (length (calls w)) (calls w')) \<and>
       GlGetProgramiv_LINK_STATUS shader_program (fst (link_result pf))
         \<in> set (drop (length (calls w)) (calls w'))"
    by (rule exI [of _ "fresh (last_shader_or_program g)"],
        rule exI [of _ "fresh (fresh (last_shader_or_program g))"])
       (simp add: r create_shader_program_run(8) [OF assms(1), of pf] name [symmetric])
  from out iff queries show ?thesis
    by (intro conjI)
qed

theorem diagnostics_written_exactly_on_failure_witness:
  "context (main_window conformant_platform) = Some new_context \<and>
   stdout (snd (create_shader_program conformant_platform
                  (main_window conformant_platform))) = [] \<and>
   context (main_window rejecting_platform) = Some new_context \<and>
   stdout (snd (create_shader_program rejecting_platform
                  (main_window rejecting_platform))) =
     ''ERROR::SHADER::VERTEX::COMPILATION_FAILED'' @ [CHR 0x0A] @
     replicate 511 (CHR ''x'') @ [CHR 0x0A] @
     ''ERROR::SHADER::PROGRAM::LINKING_FAILED'' @ [CHR 0x0A] @
     ''error: linking with uncompiled shader'' @ [CHR 0x0A]"
proof -
  note a = diagnostics_written_exactly_on_failure
    [OF main_window_context [of conformant_platform] prod.collapse [symmetric],
     where pf = conformant_platform, THEN conjunct1]
  note b = diagnostics_written_exactly_on_failure
    [OF main_window_context [of rejecting_platform] prod.collapse [symmetric],
     where pf = rejecting_platform, THEN conjunct1]
  from a have 1: "stdout (snd (create_shader_program conformant_platform
      (main_window conformant_platform))) = []"
    by (simp add: conformant_platform_simps main_window_simps)
  from b have 2: "stdout (snd (create_shader_program rejecting_platform
      (main_window rejecting_platform))) =
     ''ERROR::SHADER::VERTEX::COMPILATION_FAILED'' @ [CHR 0x0A] @
     replicate 511 (CHR ''x'') @ [CHR 0x0A] @
     ''ERROR::SHADER::PROGRAM::LINKING_FAILED'' @ [CHR 0x0A] @
     ''error: linking with uncompiled shader'' @ [CHR 0x0A]"
    by (simp add: rejecting_platform_simps main_window_simps)
  from main_window_context [of conformant_platform] 1
    main_window_context [of rejecting_platform] 2
  show ?thesis
    by (intro conjI)
qed

subsection \<open>Shutdown and exit\<close>

lemma prepare_contextless:
  "(context (snd (prepare_drawing_data_and_opengl_drawing_data w)) = None) =
     (context w = None)"
  "context w \<noteq> None \<Longrightarrow>
   contextless (snd (prepare_drawing_data_and_opengl_drawing_data w)) = contextless w"
  by (auto simp add: prepare_drawing_data_and_opengl_drawing_data_def Let_def split_def
      command_frame)

lemma initialize_simps:
  "context (initialize_glfw_glad_and_return_window pf width height title f r d w) =
     Some new_context"
  "should_close (initialize_glfw_glad_and_return_window pf width height title f r d w) = False"
  "key_callback_installed
     (initialize_glfw_glad_and_return_window pf width height title f r d w) = True"
  "calls (initialize_glfw_glad_and_return_window pf width height title f r d w) =
     calls w @ [InitializeGlfwGladAndReturnWindow width height title f r d]"
  "contextless (initialize_glfw_glad_and_return_window pf width height title f r d w) =
     contextless w"
  "stdout (initialize_glfw_glad_and_return_window pf width height title f r d w) = stdout w"
  by (simp_all add: initialize_glfw_glad_and_return_window_def log_call_def)

lemma glfwDestroyWindow_simps:
  "context (glfwDestroyWindow w) = None"
  "calls (glfwDestroyWindow w) = calls w @ [GlfwDestroyWindow]"
  "contextless (glfwDestroyWindow w) = contextless w"
  "window_exists (glfwDestroyWindow w) = False"
  "stdout (glfwDestroyWindow w) = stdout w"
  by (simp_all add: glfwDestroyWindow_def log_call_def)

lemma glfwTerminate_simps:
  "\<not> window_exists w \<Longrightarrow> calls (glfwTerminate w) = calls w @ [GlfwTerminate]"
  "\<not> window_exists w \<Longrightarrow> contextless (glfwTerminate w) = contextless w"
  "\<not> window_exists w \<Longrightarrow> context (glfwTerminate w) = context w"
  by (simp_all add: glfwTerminate_def log_call_def)

lemma exit_simps:
  "exit_status (exit status w) = Some status"
  "calls (exit status w) = calls w @ [Exit status]"
  "contextless (exit status w) = contextless w"
  "stdout (exit status w) = stdout w"
  by (simp_all add: exit_def log_call_def)

text \<open>\<open>main\<close> up to the loop, and the shutdown sequence after it.\<close>

lemma main_split:
  assumes "main pf script w0 = Some w'"
  obtains w2 w3 where
    "w2 = snd (create_shader_program pf
       (snd (prepare_drawing_data_and_opengl_drawing_data
          (initialize_glfw_glad_and_return_window pf SCREEN_WIDTH SCREEN_HEIGHT
             ''glfw window'' False False False w0))))"
    "render_loop 3 1 script w2 = Some w3"
    "w' = exit EXIT_SUCCESS (glfwTerminate (glDeleteProgram 3 (glDeleteBuffers 2
       (glDeleteBuffers 1 (glDeleteVertexArrays 1 (glfwDestroyWindow w3))))))"
proof -
  let ?i = "initialize_glfw_glad_and_return_window pf SCREEN_WIDTH SCREEN_HEIGHT
    ''glfw window'' False False False w0"
  let ?p = "prepare_drawing_data_and_opengl_drawing_data ?i"
  let ?s = "create_shader_program pf (snd ?p)"
  have ci: "context ?i = Some new_context"
    by (simp add: initialize_simps)
  have d: "fst ?p = \<lparr>vbo_name = 1, ibo_name = 2, vao_name = 1\<rparr>"
    using prepare_names [OF ci] by (simp add: new_context_def fresh_def)
  obtain g1 where c1: "context (snd ?p) = Some g1"
    and l1: "last_shader_or_program g1 = 0"
    using prepare_context [OF ci] by (auto simp: new_context_def)
  have sp: "fst ?s = 3"
    using create_shader_program_run(7) [OF c1, of pf] by (simp add: l1 fresh_def)
  have m: "main pf script w0 =
      (case render_loop 3 1 script (snd ?s) of
         None \<Rightarrow> None
       | Some w3 \<Rightarrow>
           Some (exit EXIT_SUCCESS (glfwTerminate (glDeleteProgram 3 (glDeleteBuffers 2
             (glDeleteBuffers 1 (glDeleteVertexArrays 1 (glfwDestroyWindow w3))))))))"
    unfolding main_def Let_def split_def d [unfolded Let_def] sp [unfolded Let_def]
      OpenGLDrawingData.simps
    by (rule refl)
  show ?thesis
  proof (cases "render_loop 3 1 script (snd ?s)")
    case None
    with m assms show ?thesis
      by simp
  next
    case (Some w3)
    with m assms have "w' = exit EXIT_SUCCESS (glfwTerminate (glDeleteProgram 3
        (glDeleteBuffers 2 (glDeleteBuffers 1 (glDeleteVertexArrays 1
          (glfwDestroyWindow w3))))))"
      by simp
    with Some show ?thesis
      by (intro that [of "snd ?s" w3]) simp_all
  qed
qed

lemma main_before_loop:
  fixes pf w0
  defines "w2 \<equiv> snd (create_shader_program pf
       (snd (prepare_drawing_data_and_opengl_drawing_data
          (initialize_glfw_glad_and_return_window pf SCREEN_WIDTH SCREEN_HEIGHT
             ''glfw window'' False False False w0))))"
  shows "context w2 \<noteq> None" and "contextless w2 = contextless w0"
    and "key_callback_installed w2" and "\<not> should_close w2"
proof -
  let ?i = "initialize_glfw_glad_and_return_window pf SCREEN_WIDTH SCREEN_HEIGHT
    ''glfw window'' False False False w0"
  let ?p = "snd (prepare_drawing_data_and_opengl_drawing_data ?i)"
  have ci: "context ?i \<noteq> None"
    by (simp add: initialize_simps)
  then have cp: "context ?p \<noteq> None"
    by (simp add: prepare_contextless)
  then show "context w2 \<noteq> None"
    by (simp add: w2_def create_shader_program_run(5))
  show "contextless w2 = contextless w0"
    by (simp add: w2_def create_shader_program_run(6) [OF cp] prepare_contextless(2) [OF ci]
        initialize_simps)
  show "key_callback_installed w2"
    by (simp add: w2_def create_shader_program_run(3) prepare_frame initialize_simps)
  show "\<not> should_close w2"
    by (simp add: w2_def create_shader_program_run(2) prepare_frame initialize_simps)
qed

lemma main_returns:
  assumes "\<exists>batch \<in> set script.
     CloseRequested \<in> set batch \<or>
     (\<exists>scancode mods. Key GLFW_KEY_ESCAPE scancode GLFW_PRESS mods \<in> set batch)"
  shows "\<exists>w'. main pf script w0 = Some w'"
proof -
  let ?i = "initialize_glfw_glad_and_return_window pf SCREEN_WIDTH SCREEN_HEIGHT
    ''glfw window'' False False False w0"
  let ?p = "prepare_drawing_data_and_opengl_drawing_data ?i"
  let ?s = "create_shader_program pf (snd ?p)"
  from render_loop_returns [OF main_before_loop(3) assms]
  obtain w3 where "render_loop (fst ?s) (vao_name (fst ?p)) script (snd ?s) = Some w3"
    by blast
  then show ?thesis
    by (simp add: main_def Let_def split_def)
qed

lemma main_shutdown:
  assumes "main pf script w0 = Some w'"
  shows "\<exists>before. calls w' = before @
      [GlfwWindowShouldClose True, GlfwDestroyWindow, GlDeleteVertexArrays 1,
       GlDeleteBuffers 1, GlDeleteBuffers 2, GlDeleteProgram 3, GlfwTerminate, Exit 0]"
    and "contextless w' = contextless w0 @
      [GlDeleteVertexArrays 1, GlDeleteBuffers 1, GlDeleteBuffers 2, GlDeleteProgram 3]"
    and "exit_status w' = Some 0"
proof -
  from assms obtain w2 w3 where
    w2: "w2 = snd (create_shader_program pf
       (snd (prepare_drawing_data_and_opengl_drawing_data
          (initialize_glfw_glad_and_return_window pf SCREEN_WIDTH SCREEN_HEIGHT
             ''glfw window'' False False False w0))))"
    and loop: "render_loop 3 1 script w2 = Some w3"
    and w': "w' = exit EXIT_SUCCESS (glfwTerminate (glDeleteProgram 3 (glDeleteBuffers 2
       (glDeleteBuffers 1 (glDeleteVertexArrays 1 (glfwDestroyWindow w3))))))"
    by (rule main_split)
  have c2: "context w2 \<noteq> None" and l2: "contextless w2 = contextless w0"
    unfolding w2 by (rule main_before_loop)+
  from render_loop_frame [OF loop] c2 l2 have l3: "contextless w3 = contextless w0"
    by simp
  from render_loop_calls [OF loop] obtain sizes where
    "calls w3 = calls w2 @
         concat (map (\<lambda>(width, height).
           [GlfwWindowShouldClose False,
            GlfwGetFramebufferSize width height,
            GlViewport 0 0 width height,
            GlClear {GL_COLOR_BUFFER_BIT},
            GlUseProgram 3,
            GlBindVertexArray 1,
            GlDrawElements GL_TRIANGLES 6 GL_UNSIGNED_INT 0,
            GlfwSwapBuffers,
            GlfwPollEvents]) sizes) @
         [GlfwWindowShouldClose True]"
    by blast
  then obtain mid where k3: "calls w3 = mid @ [GlfwWindowShouldClose True]"
    by (simp only: append_assoc [symmetric])
  let ?d = "glDeleteProgram 3 (glDeleteBuffers 2
       (glDeleteBuffers 1 (glDeleteVertexArrays 1 (glfwDestroyWindow w3))))"
  have wd: "\<not> window_exists ?d"
    by (simp add: command_frame glfwDestroyWindow_simps)
  have kd: "calls ?d = calls w3 @
      [GlfwDestroyWindow, GlDeleteVertexArrays 1, GlDeleteBuffers 1, GlDeleteBuffers 2,
       GlDeleteProgram 3]"
    by (simp add: command_frame glfwDestroyWindow_simps)
  have ld: "contextless ?d = contextless w3 @
      [GlDeleteVertexArrays 1, GlDeleteBuffers 1, GlDeleteBuffers 2, GlDeleteProgram 3]"
    by (simp add: command_frame glfwDestroyWindow_simps)
  show "\<exists>before. calls w' = before @
      [GlfwWindowShouldClose True, GlfwDestroyWindow, GlDeleteVertexArrays 1,
       GlDeleteBuffers 1, GlDeleteBuffers 2, GlDeleteProgram 3, GlfwTerminate, Exit 0]"
    by (rule exI [of _ mid])
       (simp add: w' exit_simps glfwTerminate_simps(1) [OF wd] kd k3 EXIT_SUCCESS_def)
  show "contextless w' = contextless w0 @
      [GlDeleteVertexArrays 1, GlDeleteBuffers 1, GlDeleteBuffers 2, GlDeleteProgram 3]"
    by (simp add: w' exit_simps glfwTerminate_simps(2) [OF wd] ld l3)
  show "exit_status w' = Some 0"
    by (simp add: w' exit_simps EXIT_SUCCESS_def)
qed

text \<open>
  Claim C9. Whenever \<open>main\<close> gets past its loop, the process exits with status 0,
  whatever the compiler and the linker answered; and it does get past the loop as soon
  as one poll delivers a close request or a press of Escape.
\<close>

theorem main_exits_with_success:
  "(main pf script w0 = Some w' \<longrightarrow> exit_status w' = Some 0) \<and>
   ((\<exists>batch \<in> set script.
       CloseRequested \<in> set batch \<or>
       (\<exists>scancode mods. Key GLFW_KEY_ESCAPE scancode GLFW_PRESS mods \<in> set batch)) \<longrightarrow>
    (\<exists>w'. main pf script w0 = Some w'))"
  using main_shutdown(3) [of pf script w0 w'] main_returns [of script pf w0]
  by blast

theorem main_exits_with_success_witness:
  "\<not> fst (vertex_result rejecting_platform) \<and>
   \<not> fst (link_result rejecting_platform) \<and>
   (\<exists>w'. main rejecting_platform [[], [Key GLFW_KEY_ESCAPE 9 GLFW_PRESS 0]] process_start =
      Some w' \<and> exit_status w' = Some 0)"
proof -
  let ?script = "[[], [Key GLFW_KEY_ESCAPE 9 GLFW_PRESS 0]]"
  have f: "\<not> fst (vertex_result rejecting_platform)"
    "\<not> fst (link_result rejecting_platform)"
    by (simp_all add: rejecting_platform_simps)
  have e: "\<exists>batch \<in> set ?script.
       CloseRequested \<in> set batch \<or>
       (\<exists>scancode mods. Key GLFW_KEY_ESCAPE scancode GLFW_PRESS mods \<in> set batch)"
    by simp
  from main_exits_with_success [of rejecting_platform ?script process_start] e
  obtain w' where r: "main rejecting_platform ?script process_start = Some w'"
    by blast
  with main_exits_with_success [of rejecting_platform ?script process_start w']
  have "exit_status w' = Some 0"
    by blast
  with f r show ?thesis
    by blast
qed

text \<open>
  Claim C3, as the code has it. After the loop \<open>main\<close> destroys the window first, and
  with it the rendering context; the four deletions of the vertex array object, the two
  buffers and the shader program come after that, when no context is current, and only
  then the library is terminated. So the deletions are not issued while a context is
  current, and the window is not destroyed after them.
\<close>

theorem shutdown_deletes_after_window_destroyed:
  assumes "main pf script w0 = Some w'"
  shows "(\<exists>before. calls w' = before @
      [GlfwWindowShouldClose True, GlfwDestroyWindow, GlDeleteVertexArrays 1,
       GlDeleteBuffers 1, GlDeleteBuffers 2, GlDeleteProgram 3, GlfwTerminate, Exit 0]) \<and>
    contextless w' = contextless w0 @
      [GlDeleteVertexArrays 1, GlDeleteBuffers 1, GlDeleteBuffers 2, GlDeleteProgram 3]"
  using main_shutdown(1,2) [OF assms] by (rule conjI)

lemma main_window_trace:
  "calls (snd (create_shader_program conformant_platform
     (snd (prepare_drawing_data_and_opengl_drawing_data (main_window conformant_platform))))) =
   [InitializeGlfwGladAndReturnWindow 640 480 ''glfw window'' False False False,
    GlGenVertexArrays 1, GlGenBuffers 1, GlGenBuffers 2,
    GlBindVertexArray 1,
    GlBindBuffer GL_ARRAY_BUFFER 1,
    GlBufferData GL_ARRAY_BUFFER 48 (FloatArray vertices) GL_STATIC_DRAW,
    GlBindBuffer GL_ELEMENT_ARRAY_BUFFER 2,
    GlBufferData GL_ELEMENT_ARRAY_BUFFER 24 (UIntArray indices) GL_STATIC_DRAW,
    GlVertexAttribPointer 0 3 GL_FLOAT False 12 0,
    GlEnableVertexAttribArray 0,
    GlBindBuffer GL_ARRAY_BUFFER 0,
    GlBindVertexArray 0,
    GlCreateShader GL_VERTEX_SHADER 1, GlShaderSource 1 vertex_shader_text,
    GlCompileShader 1, GlGetShaderiv_COMPILE_STATUS 1 True,
    GlCreateShader GL_FRAGMENT_SHADER 2, GlShaderSource 2 fragment_shader_text,
    GlCompileShader 2, GlGetShaderiv_COMPILE_STATUS 2 True,
    GlCreateProgram 3, GlAttachShader 3 1, GlAttachShader 3 2, GlLinkProgram 3,
    GlGetProgramiv_LINK_STATUS 3 True,
    GlDeleteShader 1, GlDeleteShader 2]"
proof -
  let ?m = "main_window conformant_platform"
  let ?p = "snd (prepare_drawing_data_and_opengl_drawing_data ?m)"
  obtain g1 where c1: "context ?p = Some g1" and l1: "last_shader_or_program g1 = 0"
    using prepare_context [OF main_window_context, of conformant_platform]
    by (auto simp: new_context_def)
  have "calls ?p = calls ?m @
     [GlGenVertexArrays 1, GlGenBuffers 1, GlGenBuffers 2,
      GlBindVertexArray 1,
      GlBindBuffer GL_ARRAY_BUFFER 1,
      GlBufferData GL_ARRAY_BUFFER 48 (FloatArray vertices) GL_STATIC_DRAW,
      GlBindBuffer GL_ELEMENT_ARRAY_BUFFER 2,
      GlBufferData GL_ELEMENT_ARRAY_BUFFER 24 (UIntArray indices) GL_STATIC_DRAW,
      GlVertexAttribPointer 0 3 GL_FLOAT False 12 0,
      GlEnableVertexAttribArray 0,
      GlBindBuffer GL_ARRAY_BUFFER 0,
      GlBindVertexArray 0]"
    using prepare_calls [OF main_window_context, of conformant_platform]
    by (simp add: new_context_def fresh_def)
  then show ?thesis
    using create_shader_program_run(8) [OF c1, of conformant_platform]
    by (simp add: l1 fresh_def conformant_platform_simps main_window_simps)
qed

theorem shutdown_deletes_after_window_destroyed_witness:
  "\<exists>w'. main conformant_platform [[CloseRequested]] process_start = Some w' \<and>
     calls w' =
       [InitializeGlfwGladAndReturnWindow 640 480 ''glfw window'' False False False,
        GlGenVertexArrays 1, GlGenBuffers 1, GlGenBuffers 2,
        GlBindVertexArray 1,
        GlBindBuffer GL_ARRAY_BUFFER 1,
        GlBufferData GL_ARRAY_BUFFER 48 (FloatArray vertices) GL_STATIC_DRAW,
        GlBindBuffer GL_ELEMENT_ARRAY_BUFFER 2,
        GlBufferData GL_ELEMENT_ARRAY_BUFFER 24 (UIntArray indices) GL_STATIC_DRAW,
        GlVertexAttribPointer 0 3 GL_FLOAT False 12 0,
        GlEnableVertexAttribArray 0,
        GlBindBuffer GL_ARRAY_BUFFER 0,
        GlBindVertexArray 0,
        GlCreateShader GL_VERTEX_SHADER 1, GlShaderSource 1 vertex_shader_text,
        GlCompileShader 1, GlGetShaderiv_COMPILE_STATUS 1 True,
        GlCreateShader GL_FRAGMENT_SHADER 2, GlShaderSource 2 fragment_shader_text,
        GlCompileShader 2, GlGetShaderiv_COMPILE_STATUS 2 True,
        GlCreateProgram 3, GlAttachShader 3 1, GlAttachShader 3 2, GlLinkProgram 3,
        GlGetProgramiv_LINK_STATUS 3 True,
        GlDeleteShader 1, GlDeleteShader 2,
        GlfwWindowShouldClose False,
        GlfwGetFramebufferSize 640 480, GlViewport 0 0 640 480,
        GlClear {GL_COLOR_BUFFER_BIT}, GlUseProgram 3, GlBindVertexArray 1,
        GlDrawElements GL_TRIANGLES 6 GL_UNSIGNED_INT 0, GlfwSwapBuffers, GlfwPollEvents,
        GlfwWindowShouldClose True,
        GlfwDestroyWindow,
        GlDeleteVertexArrays 1, GlDeleteBuffers 1, GlDeleteBuffers 2, GlDeleteProgram 3,
        GlfwTerminate,
        Exit 0] \<and>
     contextless w' =
       [GlDeleteVertexArrays 1, GlDeleteBuffers 1, GlDeleteBuffers 2, GlDeleteProgram 3]"
proof -
  let ?script = "[[CloseRequested]]"
  obtain w' where r: "main conformant_platform ?script process_start = Some w'"
    using main_returns [of ?script conformant_platform process_start] by auto
  note t = shutdown_deletes_after_window_destroyed [OF r]
  from r obtain w2 w3 where
    "w2 = snd (create_shader_program conformant_platform
       (snd (prepare_drawing_data_and_opengl_drawing_data
          (initialize_glfw_glad_and_return_window conformant_platform SCREEN_WIDTH
             SCREEN_HEIGHT ''glfw window'' False False False process_start))))"
    and loop: "render_loop 3 1 ?script w2 = Some w3"
    and w': "w' = exit EXIT_SUCCESS (glfwTerminate (glDeleteProgram 3 (glDeleteBuffers 2
       (glDeleteBuffers 1 (glDeleteVertexArrays 1 (glfwDestroyWindow w3))))))"
    by (rule main_split)
  then have w2: "w2 = snd (create_shader_program conformant_platform
       (snd (prepare_drawing_data_and_opengl_drawing_data (main_window conformant_platform))))"
    by (simp add: main_window_def)
  have s2: "\<not> should_close w2" "framebuffer_size w2 = (640, 480)"
    by (simp_all add: w2 create_shader_program_run prepare_frame main_window_simps
        conformant_platform_simps)
  from loop have w3: "w3 = snd (glfwWindowShouldClose
      (loop_body 3 1 [CloseRequested] (snd (glfwWindowShouldClose w2))))"
    by (simp add: run_loop s2)
  have k3: "calls w3 = calls w2 @
      [GlfwWindowShouldClose False,
       GlfwGetFramebufferSize 640 480, GlViewport 0 0 640 480,
       GlClear {GL_COLOR_BUFFER_BIT}, GlUseProgram 3, GlBindVertexArray 1,
       GlDrawElements GL_TRIANGLES 6 GL_UNSIGNED_INT 0, GlfwSwapBuffers, GlfwPollEvents,
       GlfwWindowShouldClose True]"
    by (simp add: w3 run_loop s2)
  let ?d = "glDeleteProgram 3 (glDeleteBuffers 2
       (glDeleteBuffers 1 (glDeleteVertexArrays 1 (glfwDestroyWindow w3))))"
  have wd: "\<not> window_exists ?d"
    by (simp add: command_frame glfwDestroyWindow_simps)
  have k: "calls w' = calls w3 @
      [GlfwDestroyWindow, GlDeleteVertexArrays 1, GlDeleteBuffers 1, GlDeleteBuffers 2,
       GlDeleteProgram 3, GlfwTerminate, Exit 0]"
    by (simp add: w' exit_simps glfwTerminate_simps(1) [OF wd] command_frame
        glfwDestroyWindow_simps EXIT_SUCCESS_def)
  have l: "contextless w' =
      [GlDeleteVertexArrays 1, GlDeleteBuffers 1, GlDeleteBuffers 2, GlDeleteProgram 3]"
    using t by (simp add: process_start_def)
  show ?thesis
    by (rule exI [of _ w'])
       (simp add: r l k k3 w2 main_window_trace)
qed

end
